theory Spec2Isabelle
  imports Main
begin

section \<open>The path module of the runtime (POSIX flavour)\<close>

text \<open>
  The extension calls \<^verbatim>\<open>path.join\<close>, \<^verbatim>\<open>path.resolve\<close> and \<^verbatim>\<open>path.isAbsolute\<close> of the
  runtime's standard library. They are not part of the repository; they are written out
  here after the POSIX implementation of the runtime: a path is cut at every slash, the
  segments are normalised from left to right (an empty segment and a single dot are
  dropped, a double dot removes the segment before it), and the result is glued together
  again. A string is a list of characters.
\<close>

fun splitOn :: "char \<Rightarrow> string \<Rightarrow> string list" where
  "splitOn sep [] = [[]]"
| "splitOn sep (c # cs) =
     (if c = sep then [] # splitOn sep cs
      else (case splitOn sep cs of [] \<Rightarrow> [[c]] | s # ss \<Rightarrow> (c # s) # ss))"

fun joinWith :: "char \<Rightarrow> string list \<Rightarrow> string" where
  "joinWith sep [] = []"
| "joinWith sep [s] = s"
| "joinWith sep (s # t # ss) = s @ sep # joinWith sep (t # ss)"

definition splitSlash :: "string \<Rightarrow> string list" where
  "splitSlash path = splitOn (CHR ''/'') path"

definition joinSlash :: "string list \<Rightarrow> string" where
  "joinSlash segs = joinWith (CHR ''/'') segs"

definition normalizeStep :: "bool \<Rightarrow> string list \<Rightarrow> string \<Rightarrow> string list" where
  "normalizeStep allowAboveRoot res seg =
     (if seg = [] \<or> seg = ''.'' then res
      else if seg = ''..'' then
        (if res \<noteq> [] \<and> last res \<noteq> ''..'' then butlast res
         else if allowAboveRoot then res @ [''..'']
         else res)
      else res @ [seg])"

definition normalizeSegments :: "bool \<Rightarrow> string \<Rightarrow> string list" where
  "normalizeSegments allowAboveRoot path =
     foldl (normalizeStep allowAboveRoot) [] (splitSlash path)"

definition normalizeString :: "string \<Rightarrow> bool \<Rightarrow> string" where
  "normalizeString path allowAboveRoot = joinSlash (normalizeSegments allowAboveRoot path)"

definition isAbsolute :: "string \<Rightarrow> bool" where
  "isAbsolute path = (case path of [] \<Rightarrow> False | c # _ \<Rightarrow> c = CHR ''/'')"

definition normalize_path :: "string \<Rightarrow> string" where
  "normalize_path path =
     (if path = [] then ''.''
      else let trailingSeparator = (last path = CHR ''/'');
               p = normalizeString path (\<not> isAbsolute path)
           in if p = [] then
                (if isAbsolute path then ''/'' else if trailingSeparator then ''./'' else ''.'')
              else let q = (if trailingSeparator then p @ ''/'' else p)
                   in if isAbsolute path then CHR ''/'' # q else q)"

definition join :: "string list \<Rightarrow> string" where
  "join args =
     (case filter (\<lambda>a. a \<noteq> []) args of
        [] \<Rightarrow> ''.''
      | a # as \<Rightarrow> normalize_path (joinSlash (a # as)))"

text \<open>
  \<^verbatim>\<open>path.resolve(p)\<close> with one argument: the argument is taken if it is absolute, and put
  behind the working directory of the process otherwise.
\<close>

definition resolveInput :: "string \<Rightarrow> string \<Rightarrow> string" where
  "resolveInput wd path =
     (if path = [] then wd @ ''/''
      else if isAbsolute path then path @ ''/''
      else wd @ ''/'' @ path @ ''/'')"

definition resolveSegments :: "string \<Rightarrow> string \<Rightarrow> string list" where
  "resolveSegments wd path =
     normalizeSegments (\<not> (isAbsolute path \<or> isAbsolute wd)) (resolveInput wd path)"

definition resolve :: "string \<Rightarrow> string \<Rightarrow> string" where
  "resolve wd path =
     (let p = joinSlash (resolveSegments wd path)
      in if isAbsolute path \<or> isAbsolute wd then CHR ''/'' # p
         else if p \<noteq> [] then p else ''.'')"

definition startsWith :: "string \<Rightarrow> string \<Rightarrow> bool" where
  "startsWith s p = (take (length p) s = p)"

text \<open>The decimal digits of a number, as string concatenation with a number produces them.\<close>

definition digit :: "nat \<Rightarrow> char" where
  "digit d = ''0123456789'' ! d"

function toString :: "nat \<Rightarrow> string" where
  "toString n = (if n < 10 then [digit n] else toString (n div 10) @ [digit (n mod 10)])"
  by pat_completeness auto
termination
  by (relation "measure (\<lambda>n. n)") auto

declare toString.simps [simp del]

section \<open>The file system\<close>

text \<open>
  The file system is a tree. A directory has a list of named entries and a flag telling
  whether the process may access it: listing an inaccessible directory, and looking up,
  unlinking or removing one of its entries, fails with \<^verbatim>\<open>EACCES\<close>. Everything that is not
  a directory (a regular file, a symbolic link, which \<^verbatim>\<open>lstat\<close> does not follow) is a
  \<open>File\<close>. The model has no symbolic links to directories on the path to the source
  root, and nobody else changes the tree while the extension runs.
\<close>

datatype node = File | Dir bool "(string \<times> node) list"

datatype errno = ENOENT | ENOTDIR | EACCES | EISDIR | ENOTEMPTY | EBUSY

fun is_dir :: "node \<Rightarrow> bool" where
  "is_dir File = False"
| "is_dir (Dir a es) = True"

fun walk :: "node \<Rightarrow> string list \<Rightarrow> errno + node" where
  "walk d [] = Inr d"
| "walk File (n # ns) = Inl ENOTDIR"
| "walk (Dir a es) (n # ns) =
     (if \<not> a then Inl EACCES
      else case map_of es n of None \<Rightarrow> Inl ENOENT | Some c \<Rightarrow> walk c ns)"

fun entry_list :: "string \<Rightarrow> node option \<Rightarrow> (string \<times> node) list" where
  "entry_list n None = []"
| "entry_list n (Some c) = [(n, c)]"

text \<open>Replacing or removing the entry with a given name (the one \<open>map_of\<close> finds).\<close>

fun upd_entry :: "string \<Rightarrow> node option \<Rightarrow> (string \<times> node) list \<Rightarrow> (string \<times> node) list" where
  "upd_entry n x [] = []"
| "upd_entry n x ((m, c) # es) =
     (if m = n then entry_list n x @ es else (m, c) # upd_entry n x es)"

fun put :: "node \<Rightarrow> string list \<Rightarrow> node option \<Rightarrow> node" where
  "put d [] x = (case x of None \<Rightarrow> d | Some d' \<Rightarrow> d')"
| "put File (n # ns) x = File"
| "put (Dir a es) (n # ns) x =
     (if ns = [] then Dir a (upd_entry n x es)
      else case map_of es n of
             None \<Rightarrow> Dir a es
           | Some c \<Rightarrow> Dir a (upd_entry n (Some (put c ns x)) es))"

definition fs_readdir :: "node \<Rightarrow> string list \<Rightarrow> errno + string list" where
  "fs_readdir root ns =
     (case walk root ns of
        Inl e \<Rightarrow> Inl e
      | Inr File \<Rightarrow> Inl ENOTDIR
      | Inr (Dir a es) \<Rightarrow> if a then Inr (map fst es) else Inl EACCES)"

definition fs_lstat :: "node \<Rightarrow> string list \<Rightarrow> errno + node" where
  "fs_lstat root ns = walk root ns"

definition fs_unlink :: "node \<Rightarrow> string list \<Rightarrow> errno + node" where
  "fs_unlink root ns =
     (if ns = [] then Inl EISDIR
      else case walk root ns of
             Inl e \<Rightarrow> Inl e
           | Inr File \<Rightarrow> Inr (put root ns None)
           | Inr (Dir a es) \<Rightarrow> Inl EISDIR)"

definition fs_rmdir :: "node \<Rightarrow> string list \<Rightarrow> errno + node" where
  "fs_rmdir root ns =
     (if ns = [] then Inl EBUSY
      else case walk root ns of
             Inl e \<Rightarrow> Inl e
           | Inr File \<Rightarrow> Inl ENOTDIR
           | Inr (Dir a es) \<Rightarrow> if es = [] then Inr (put root ns None) else Inl ENOTEMPTY)"

section \<open>The world the extension runs in\<close>

text \<open>
  Everything the extension reads or changes outside its own variables is a field of the
  world: the working directory of the process, the disk, the console, the progress
  notifications, the processes launched, the databases registered with the host as the
  current one, the messages shown to the user, and the exceptions that escaped from an
  event listener.
\<close>

datatype error =
    InvalidPath
  | FsError errno
  | ExecError "nat option"
  | SpawnError
  | ReferenceError string
  | TypeError

datatype console_entry = ConsoleError string error | ConsoleLog string

datatype increment = Units nat | Ratio nat nat

datatype launch = ExecFile string "string list" | SpawnShell string

record world =
  cwd :: string
  disk :: node
  console :: "console_entry list"
  progress :: "(string \<times> increment) list"
  launched :: "launch list"
  registered :: "string list"
  notices :: "string list"
  uncaught :: "error list"

text \<open>
  An asynchronous function either returns, or throws, or waits for a promise that is
  never settled. \<open>OutOfFuel\<close> is not a behaviour of the program: it is what the model
  answers when the recursion bound it was given is too small.
\<close>

datatype 'a outcome = Returns 'a world | Throws error world | Pending world | OutOfFuel

definition await :: "(world \<Rightarrow> 'a outcome) \<Rightarrow> ('a \<Rightarrow> world \<Rightarrow> 'b outcome) \<Rightarrow> world \<Rightarrow> 'b outcome" where
  "await m f w =
     (case m w of
        Returns a w' \<Rightarrow> f a w'
      | Throws e w' \<Rightarrow> Throws e w'
      | Pending w' \<Rightarrow> Pending w'
      | OutOfFuel \<Rightarrow> OutOfFuel)"

definition try_catch :: "(world \<Rightarrow> 'a outcome) \<Rightarrow> (error \<Rightarrow> world \<Rightarrow> 'a outcome) \<Rightarrow> world \<Rightarrow> 'a outcome" where
  "try_catch m h w = (case m w of Throws e w' \<Rightarrow> h e w' | r \<Rightarrow> r)"

primrec forOf :: "'a list \<Rightarrow> ('a \<Rightarrow> world \<Rightarrow> unit outcome) \<Rightarrow> world \<Rightarrow> unit outcome" where
  "forOf [] body w = Returns () w"
| "forOf (x # xs) body w = await (body x) (\<lambda>_. forOf xs body) w"

definition console_error :: "string \<Rightarrow> error \<Rightarrow> world \<Rightarrow> unit outcome" where
  "console_error msg err w = Returns () (w\<lparr>console := console w @ [ConsoleError msg err]\<rparr>)"

definition console_log :: "string \<Rightarrow> world \<Rightarrow> world" where
  "console_log msg w = w\<lparr>console := console w @ [ConsoleLog msg]\<rparr>"

definition report :: "string \<Rightarrow> increment \<Rightarrow> world \<Rightarrow> world" where
  "report title inc w = w\<lparr>progress := progress w @ [(title, inc)]\<rparr>"

text \<open>
  The host's \<^verbatim>\<open>withProgress\<close> shows a notification while the task runs and hands the
  task's result, or its exception, on.
\<close>

definition withProgress :: "string \<Rightarrow> (world \<Rightarrow> 'a outcome) \<Rightarrow> world \<Rightarrow> 'a outcome" where
  "withProgress title task = task"

subsection \<open>The file-system calls\<close>

text \<open>
  A call takes a path as a string; the kernel resolves it against the working directory.
\<close>

datatype stats = Stats bool

fun isDirectory :: "stats \<Rightarrow> bool" where
  "isDirectory (Stats b) = b"

definition readdir :: "string \<Rightarrow> world \<Rightarrow> string list outcome" where
  "readdir p w =
     (case fs_readdir (disk w) (resolveSegments (cwd w) p) of
        Inl e \<Rightarrow> Throws (FsError e) w
      | Inr names \<Rightarrow> Returns names w)"

definition lstat :: "string \<Rightarrow> world \<Rightarrow> stats outcome" where
  "lstat p w =
     (case fs_lstat (disk w) (resolveSegments (cwd w) p) of
        Inl e \<Rightarrow> Throws (FsError e) w
      | Inr d \<Rightarrow> Returns (Stats (is_dir d)) w)"

definition unlink :: "string \<Rightarrow> world \<Rightarrow> unit outcome" where
  "unlink p w =
     (case fs_unlink (disk w) (resolveSegments (cwd w) p) of
        Inl e \<Rightarrow> Throws (FsError e) w
      | Inr d \<Rightarrow> Returns () (w\<lparr>disk := d\<rparr>))"

definition rmdir :: "string \<Rightarrow> world \<Rightarrow> unit outcome" where
  "rmdir p w =
     (case fs_rmdir (disk w) (resolveSegments (cwd w) p) of
        Inl e \<Rightarrow> Throws (FsError e) w
      | Inr d \<Rightarrow> Returns () (w\<lparr>disk := d\<rparr>))"

section \<open>The extension\<close>

subsection \<open>sanitizePath, cleanupDbFolder and cleanupOldDb (the same text in both files)\<close>

definition sanitizePath :: "string \<Rightarrow> world \<Rightarrow> string outcome" where
  "sanitizePath inputPath w =
     (let absolutePath = resolve (cwd w) inputPath
      in if isAbsolute inputPath \<and> inputPath = absolutePath then Returns absolutePath w
         else Throws InvalidPath w)"

text \<open>
  \<^verbatim>\<open>cleanupDbFolder\<close> calls itself on every subdirectory. The first argument bounds the
  depth of these calls.
\<close>

fun cleanupDbFolder :: "nat \<Rightarrow> string \<Rightarrow> world \<Rightarrow> unit outcome" where
  "cleanupDbFolder 0 folderPath w = OutOfFuel"
| "cleanupDbFolder (Suc fuel) folderPath w =
     try_catch
       (await (readdir folderPath) (\<lambda>files.
        await (forOf files (\<lambda>file.
                 await (sanitizePath (join [folderPath, file])) (\<lambda>curPath.
                 await (lstat curPath) (\<lambda>curStat w'.
                   if isDirectory curStat then cleanupDbFolder fuel curPath w'
                   else unlink curPath w')))) (\<lambda>_.
        rmdir folderPath)))
       (console_error ''Error cleaning up database subfolder:'')
       w"

primrec cleanupOldDb_loop :: "nat \<Rightarrow> string \<Rightarrow> nat \<Rightarrow> nat \<Rightarrow> string list \<Rightarrow> world \<Rightarrow> unit outcome" where
  "cleanupOldDb_loop fuel sanitizedFolderPath totalFiles processedFiles [] w = Returns () w"
| "cleanupOldDb_loop fuel sanitizedFolderPath totalFiles processedFiles (file # rest) w =
     (let curPath = join [sanitizedFolderPath, file]
      in await (lstat curPath) (\<lambda>curStat.
         await (if isDirectory curStat \<and> startsWith file ''sample_''
                then cleanupDbFolder fuel curPath else Returns ()) (\<lambda>_ w'.
         cleanupOldDb_loop fuel sanitizedFolderPath totalFiles (processedFiles + 1) rest
           (report ''Cleaning up old databases'' (Ratio (processedFiles + 1) totalFiles) w')))
         w)"

definition cleanupOldDb :: "nat \<Rightarrow> string \<Rightarrow> world \<Rightarrow> unit outcome" where
  "cleanupOldDb fuel folderPath =
     try_catch
       (await (sanitizePath folderPath) (\<lambda>sanitizedFolderPath.
        await (readdir sanitizedFolderPath) (\<lambda>files.
        withProgress ''Cleaning up old databases'' (\<lambda>w.
          cleanupOldDb_loop fuel sanitizedFolderPath (length files) 0 files
            (report ''Cleaning up old databases'' (Units 0) w)))))
       (console_error ''Error cleaning up database folder:'')"

subsection \<open>The child process\<close>

text \<open>
  What the external tool does is an input of the model: the chunks it writes to its two
  output streams, and how it ends. The runtime turns the end of a process into events.
  A process that ran emits \<^verbatim>\<open>exit\<close> and, after its streams are closed, \<^verbatim>\<open>close\<close>; the
  callback of \<^verbatim>\<open>execFile\<close> is called on \<^verbatim>\<open>close\<close>, so always after the \<^verbatim>\<open>exit\<close> listeners.
  A process that could not be started emits \<^verbatim>\<open>error\<close> and no \<^verbatim>\<open>exit\<close>.
\<close>

datatype stream = Stdout | Stderr

datatype proc_end = Exited nat | Killed string | SpawnFailed

record child =
  chunks :: "(stream \<times> string) list"
  ending :: proc_end

datatype event =
    OnData stream string
  | OnExit "nat option" "string option"
  | OnCallback "error option" string
  | OnError error

definition stdout_of :: "child \<Rightarrow> string" where
  "stdout_of ch = concat (map snd (filter (\<lambda>(s, d). s = Stdout) (chunks ch)))"

definition execFile_events :: "child \<Rightarrow> event list" where
  "execFile_events ch =
     (case ending ch of
        Exited code \<Rightarrow>
          [OnExit (Some code) None,
           OnCallback (if code = 0 then None else Some (ExecError (Some code))) (stdout_of ch)]
      | Killed signal \<Rightarrow>
          [OnExit None (Some signal), OnCallback (Some (ExecError None)) (stdout_of ch)]
      | SpawnFailed \<Rightarrow> [OnCallback (Some SpawnError) []])"

definition spawn_events :: "child \<Rightarrow> event list" where
  "spawn_events ch =
     (case ending ch of
        Exited code \<Rightarrow> map (\<lambda>(s, d). OnData s d) (chunks ch) @ [OnExit (Some code) None]
      | Killed signal \<Rightarrow> map (\<lambda>(s, d). OnData s d) (chunks ch) @ [OnExit None (Some signal)]
      | SpawnFailed \<Rightarrow> [OnError SpawnError])"

text \<open>A promise is settled once: a later \<^verbatim>\<open>resolve\<close> or \<^verbatim>\<open>reject\<close> does nothing.\<close>

datatype 'a settled = Resolved 'a | Rejected error

definition resolve_with :: "'a \<Rightarrow> 'a settled option \<Rightarrow> 'a settled option" where
  "resolve_with v s = (case s of None \<Rightarrow> Some (Resolved v) | Some x \<Rightarrow> Some x)"

definition reject_with :: "error \<Rightarrow> 'a settled option \<Rightarrow> 'a settled option" where
  "reject_with e s = (case s of None \<Rightarrow> Some (Rejected e) | Some x \<Rightarrow> Some x)"

definition settle :: "'a settled option \<Rightarrow> world \<Rightarrow> 'a outcome" where
  "settle s w =
     (case s of
        None \<Rightarrow> Pending w
      | Some (Resolved v) \<Rightarrow> Returns v w
      | Some (Rejected e) \<Rightarrow> Throws e w)"

text \<open>
  What the external tool receives as its argument vector. Without a shell it is the list
  the launcher was given. With a shell the command line is cut into fields first; for a
  command line without quotes and operators the fields are the maximal runs of
  characters other than the space.
\<close>

definition shell_fields :: "string \<Rightarrow> string list" where
  "shell_fields line = filter (\<lambda>f. f \<noteq> []) (splitOn (CHR '' '') line)"

fun delivered :: "launch \<Rightarrow> string list" where
  "delivered (ExecFile file args) = file # args"
| "delivered (SpawnShell line) = shell_fields line"

fun uses_shell :: "launch \<Rightarrow> bool" where
  "uses_shell (ExecFile file args) = False"
| "uses_shell (SpawnShell line) = True"

subsection \<open>executeCommand, loadDatabase and updateDb of src/extension.js\<close>

datatype jsval = Str string | Code "nat option"

fun executeCommand_handler :: "jsval settled option \<times> world \<Rightarrow> event \<Rightarrow> jsval settled option \<times> world" where
  "executeCommand_handler (s, w) (OnCallback error stdout) =
     (resolve_with (Str stdout) (case error of Some e \<Rightarrow> reject_with e s | None \<Rightarrow> s), w)"
| "executeCommand_handler (s, w) (OnExit code signal) =
     (resolve_with (Code code) s, report ''Creating CodeQL database'' (Units 100) w)"
| "executeCommand_handler (s, w) (OnData st d) = (s, w)"
| "executeCommand_handler (s, w) (OnError e) = (s, w)"

text \<open>
  \<^verbatim>\<open>execFile(cmd[0], cmd.slice(1), ...)\<close>: on an empty array the file name is
  \<^verbatim>\<open>undefined\<close> and \<^verbatim>\<open>execFile\<close> throws inside the task of \<^verbatim>\<open>withProgress\<close>, whose promise
  nobody awaits; the promise of \<^verbatim>\<open>executeCommand\<close> is then never settled.
\<close>

definition executeCommand :: "child \<Rightarrow> string list \<Rightarrow> world \<Rightarrow> jsval outcome" where
  "executeCommand ch cmd w =
     (let w0 = report ''Creating CodeQL database'' (Units 0) w
      in case cmd of
           [] \<Rightarrow> Pending (w0\<lparr>uncaught := uncaught w0 @ [TypeError]\<rparr>)
         | file # args \<Rightarrow>
             (let w1 = w0\<lparr>launched := launched w0 @ [ExecFile file args]\<rparr>;
                  (s, w2) = foldl executeCommand_handler (None, w1) (execFile_events ch)
              in settle s w2))"

definition loadDatabase :: "string \<Rightarrow> world \<Rightarrow> unit outcome" where
  "loadDatabase databasPath w = Returns () (w\<lparr>registered := registered w @ [databasPath]\<rparr>)"

text \<open>A string is truthy if it is there and not empty.\<close>

fun truthy :: "string option \<Rightarrow> bool" where
  "truthy None = False"
| "truthy (Some s) = (s \<noteq> [])"

fun str :: "string option \<Rightarrow> string" where
  "str None = ''undefined''"
| "str (Some s) = s"

definition updateDb_cmd :: "string \<Rightarrow> string \<Rightarrow> string \<Rightarrow> string option \<Rightarrow> string list" where
  "updateDb_cmd database language sourceRoot command =
     (if truthy command then
        [''codeql'', ''database'', ''create'', database, ''--language='' @ language,
         ''--source-root'', sourceRoot, ''--command'', str command, ''--overwrite'']
      else
        [''codeql'', ''database'', ''create'', database, ''--language='' @ language,
         ''--source-root'', sourceRoot, ''--build-mode=none'', ''--overwrite''])"

definition updateDb :: "nat \<Rightarrow> nat \<Rightarrow> child \<Rightarrow> string \<Rightarrow> string \<Rightarrow> string option \<Rightarrow> world \<Rightarrow> unit outcome" where
  "updateDb fuel now ch language sourceRoot command =
     await (cleanupOldDb fuel sourceRoot) (\<lambda>_.
     await (sanitizePath (join [sourceRoot, ''sample_'' @ toString now])) (\<lambda>database.
     try_catch
       (await (executeCommand ch (updateDb_cmd database language sourceRoot command)) (\<lambda>_.
        loadDatabase database))
       (console_error ''Error occurred during database update:'')))"

subsection \<open>codeqlCmd, loadDatabase and updateDb of src/unnamed/part_000\<close>

text \<open>
  In the \<^verbatim>\<open>exit\<close> listener of \<^verbatim>\<open>codeqlCmd\<close> the message of the error names a variable
  \<^verbatim>\<open>stderr\<close> that is declared nowhere: evaluating it throws a \<^verbatim>\<open>ReferenceError\<close> before
  \<^verbatim>\<open>reject\<close> is called, the exception leaves the listener, and the rest of the listener
  does not run.
\<close>

definition show_code :: "nat option \<Rightarrow> string" where
  "show_code code = (case code of None \<Rightarrow> ''null'' | Some c \<Rightarrow> toString c)"

definition show_signal :: "string option \<Rightarrow> string" where
  "show_signal signal = (case signal of None \<Rightarrow> ''null'' | Some s \<Rightarrow> s)"

fun codeqlCmd_handler :: "unit settled option \<times> world \<Rightarrow> event \<Rightarrow> unit settled option \<times> world" where
  "codeqlCmd_handler (s, w) (OnData Stderr d) =
     (s, report ''Creating CodeQL database'' (Units 2) (console_log d w))"
| "codeqlCmd_handler (s, w) (OnData Stdout d) =
     (s, report ''Creating CodeQL database'' (Units 1) (console_log d w))"
| "codeqlCmd_handler (s, w) (OnExit code signal) =
     (let w1 = console_log (''exit '' @ show_code code @ '' '' @ show_signal signal) w
      in if code \<noteq> Some 0 then (s, w1\<lparr>uncaught := uncaught w1 @ [ReferenceError ''stderr'']\<rparr>)
         else (resolve_with () s, report ''Creating CodeQL database'' (Units 100) w1))"
| "codeqlCmd_handler (s, w) (OnError error) =
     (reject_with error s, w\<lparr>console := console w @ [ConsoleError [] error]\<rparr>)"
| "codeqlCmd_handler (s, w) (OnCallback error stdout) = (s, w)"

definition codeqlCmd :: "child \<Rightarrow> string \<Rightarrow> world \<Rightarrow> unit outcome" where
  "codeqlCmd ch cmd =
     try_catch
       (withProgress ''Creating CodeQL database'' (\<lambda>w.
          let w0 = report ''Creating CodeQL database'' (Units 0) w;
              w1 = w0\<lparr>launched := launched w0 @ [SpawnShell cmd]\<rparr>;
              (s, w2) = foldl codeqlCmd_handler (None, w1) (spawn_events ch)
          in settle s w2))
       (console_error [])"

definition loadDatabase_part000 :: "string \<Rightarrow> world \<Rightarrow> unit outcome" where
  "loadDatabase_part000 databasePath w =
     Returns () (w\<lparr>registered := registered w @ [databasePath],
                   notices := notices w @
                     [''Finished building CodeQL database and set it as current database for analyzing.'']\<rparr>)"

definition updateDb_cmd_part000 :: "string \<Rightarrow> string \<Rightarrow> string \<Rightarrow> string option \<Rightarrow> string" where
  "updateDb_cmd_part000 database language sourceRoot command =
     (if truthy command then
        ''codeql database create '' @ database @ '' --language='' @ language @
        '' --source-root '' @ sourceRoot @ '' --command '' @ str command @ '' --overwrite''
      else
        ''codeql database create '' @ database @ '' --language='' @ language @
        '' --source-root '' @ sourceRoot @ '' --build-mode=none --overwrite'')"

definition updateDb_part000 :: "nat \<Rightarrow> nat \<Rightarrow> child \<Rightarrow> string \<Rightarrow> string \<Rightarrow> string option \<Rightarrow> world \<Rightarrow> unit outcome" where
  "updateDb_part000 fuel now ch language sourceRoot command =
     await (cleanupOldDb fuel sourceRoot) (\<lambda>_.
     await (sanitizePath (join [sourceRoot, ''sample_'' @ toString now])) (\<lambda>database.
     try_catch
       (await (codeqlCmd ch (updateDb_cmd_part000 database language sourceRoot command)) (\<lambda>_.
        loadDatabase_part000 database))
       (console_error ''Error occurred during database update:'')))"

subsection \<open>buildCodeqlDb (the same text in both files)\<close>

text \<open>
  The answers of the user are inputs: the entry picked in the language list and the text
  typed into the input box, each absent when the prompt was dismissed.
\<close>

datatype language = Java | JavaScript

fun language_value :: "language \<Rightarrow> string" where
  "language_value Java = ''java''"
| "language_value JavaScript = ''javascript''"

record host =
  dateNow :: nat
  childProcess :: child
  showQuickPick :: "language option"
  showInputBox :: "string option"

definition showErrorMessage :: "string \<Rightarrow> world \<Rightarrow> unit outcome" where
  "showErrorMessage msg w = Returns () (w\<lparr>notices := notices w @ [msg]\<rparr>)"

definition buildCodeqlDb_with ::
  "(string \<Rightarrow> string \<Rightarrow> string option \<Rightarrow> world \<Rightarrow> unit outcome) \<Rightarrow>
   host \<Rightarrow> string option \<Rightarrow> bool \<Rightarrow> world \<Rightarrow> unit outcome" where
  "buildCodeqlDb_with upd h uri includeCommand w =
     (if \<not> truthy uri then showErrorMessage ''No folder path available.'' w
      else case showQuickPick h of
             None \<Rightarrow> Returns () w
           | Some language \<Rightarrow>
               (let command = (if includeCommand then showInputBox h else None)
                in upd (language_value language) (str uri) command w))"

definition buildCodeqlDb :: "nat \<Rightarrow> host \<Rightarrow> string option \<Rightarrow> bool \<Rightarrow> world \<Rightarrow> unit outcome" where
  "buildCodeqlDb fuel h = buildCodeqlDb_with (updateDb fuel (dateNow h) (childProcess h)) h"

definition buildCodeqlDb_part000 :: "nat \<Rightarrow> host \<Rightarrow> string option \<Rightarrow> bool \<Rightarrow> world \<Rightarrow> unit outcome" where
  "buildCodeqlDb_part000 fuel h =
     buildCodeqlDb_with (updateDb_part000 fuel (dateNow h) (childProcess h)) h"

section \<open>Notions used to state the properties\<close>

text \<open>
  A name of a directory entry is not empty, has no slash and is neither dot nor double
  dot. The absolute path with the segments \<open>ss\<close> is \<open>cpath ss\<close>. A tree is well formed
  when the names in every directory are such names and differ from each other.
\<close>

definition clean_name :: "string \<Rightarrow> bool" where
  "clean_name n = (n \<noteq> [] \<and> CHR ''/'' \<notin> set n \<and> n \<noteq> ''.'' \<and> n \<noteq> ''..'')"

definition cpath :: "string list \<Rightarrow> string" where
  "cpath ss = CHR ''/'' # joinSlash ss"

fun wf_node :: "node \<Rightarrow> bool"
  and wf_entries :: "(string \<times> node) list \<Rightarrow> bool" where
  "wf_node File = True"
| "wf_node (Dir a es) = wf_entries es"
| "wf_entries [] = True"
| "wf_entries ((n, c) # es) =
     (clean_name n \<and> n \<notin> fst ` set es \<and> wf_node c \<and> wf_entries es)"

fun depth :: "node \<Rightarrow> nat"
  and depth_entries :: "(string \<times> node) list \<Rightarrow> nat" where
  "depth File = 0"
| "depth (Dir a es) = Suc (depth_entries es)"
| "depth_entries [] = 0"
| "depth_entries ((n, c) # es) = max (depth c) (depth_entries es)"

text \<open>A subtree in which no directory is closed to the process.\<close>

fun accessible :: "node \<Rightarrow> bool"
  and accessible_entries :: "(string \<times> node) list \<Rightarrow> bool" where
  "accessible File = True"
| "accessible (Dir a es) = (a \<and> accessible_entries es)"
| "accessible_entries [] = True"
| "accessible_entries ((n, c) # es) = (accessible c \<and> accessible_entries es)"

text \<open>
  What is left of a directory after the recursive deletion, and the errors met on the
  way: a closed directory cannot be listed and stays as it is; in an open one every file
  is unlinked, every subdirectory is treated in the same way, and the directory itself is
  removed if nothing is left in it.
\<close>

fun reap :: "node \<Rightarrow> node option"
  and reap_entries :: "(string \<times> node) list \<Rightarrow> (string \<times> node) list" where
  "reap File = Some File"
| "reap (Dir a es) =
     (if \<not> a then Some (Dir a es)
      else if reap_entries es = [] then None
      else Some (Dir a (reap_entries es)))"
| "reap_entries [] = []"
| "reap_entries ((n, c) # es) =
     (if is_dir c then entry_list n (reap c) else []) @ reap_entries es"

fun reap_errors :: "node \<Rightarrow> errno list"
  and reap_errors_entries :: "(string \<times> node) list \<Rightarrow> errno list" where
  "reap_errors File = [ENOTDIR]"
| "reap_errors (Dir a es) =
     (if \<not> a then [EACCES]
      else reap_errors_entries es @ (if reap_entries es = [] then [] else [ENOTEMPTY]))"
| "reap_errors_entries [] = []"
| "reap_errors_entries ((n, c) # es) =
     (if is_dir c then reap_errors c else []) @ reap_errors_entries es"

text \<open>A stale database: a directory whose name starts with the prefix.\<close>

definition stale :: "string \<times> node \<Rightarrow> bool" where
  "stale e = (is_dir (snd e) \<and> startsWith (fst e) ''sample_'')"

fun sweep :: "(string \<times> node) list \<Rightarrow> (string \<times> node) list" where
  "sweep [] = []"
| "sweep ((n, c) # es) =
     (if stale (n, c) then entry_list n (reap c) else [(n, c)]) @ sweep es"

fun sweep_errors :: "(string \<times> node) list \<Rightarrow> errno list" where
  "sweep_errors [] = []"
| "sweep_errors ((n, c) # es) =
     (if stale (n, c) then reap_errors c else []) @ sweep_errors es"

definition subfolder_error :: "errno \<Rightarrow> console_entry" where
  "subfolder_error e = ConsoleError ''Error cleaning up database subfolder:'' (FsError e)"

definition cleanup_reports :: "nat \<Rightarrow> nat \<Rightarrow> nat \<Rightarrow> (string \<times> increment) list" where
  "cleanup_reports totalFiles processed k =
     map (\<lambda>i. (''Cleaning up old databases'', Ratio i totalFiles)) [Suc processed ..< Suc processed + k]"

text \<open>
  Normalising a path from segments already collected, and a segment as cutting at the
  slashes produces it, when it is not empty.
\<close>

definition norm_from :: "bool \<Rightarrow> string list \<Rightarrow> string \<Rightarrow> string list" where
  "norm_from b acc path = foldl (normalizeStep b) acc (splitSlash path)"

definition proper :: "string \<Rightarrow> bool" where
  "proper seg = (seg \<noteq> [] \<and> CHR ''/'' \<notin> set seg)"

text \<open>The world an outcome ends in.\<close>

fun final :: "'a outcome \<Rightarrow> world option" where
  "final (Returns a w) = Some w"
| "final (Throws e w) = Some w"
| "final (Pending w) = Some w"
| "final OutOfFuel = None"

text \<open>
  The cleanup changes nothing but the disk, the console and the progress notification.
\<close>

definition cleanup_only :: "world \<Rightarrow> world \<Rightarrow> bool" where
  "cleanup_only w w' =
     (cwd w' = cwd w \<and> launched w' = launched w \<and> registered w' = registered w \<and>
      notices w' = notices w \<and> uncaught w' = uncaught w)"

definition framed :: "(world \<Rightarrow> 'a outcome) \<Rightarrow> bool" where
  "framed m = (\<forall>w. case final (m w) of None \<Rightarrow> True | Some w' \<Rightarrow> cleanup_only w w')"

text \<open>The body of the loop of \<^verbatim>\<open>cleanupDbFolder\<close>, named for the proofs.\<close>

definition cleanupDbFolder_body :: "nat \<Rightarrow> string \<Rightarrow> string \<Rightarrow> world \<Rightarrow> unit outcome" where
  "cleanupDbFolder_body fuel folderPath file =
     await (sanitizePath (join [folderPath, file])) (\<lambda>curPath.
     await (lstat curPath) (\<lambda>curStat w'.
       if isDirectory curStat then cleanupDbFolder fuel curPath w'
       else unlink curPath w'))"

text \<open>
  Two projects for the examples. \<^verbatim>\<open>/proj\<close> holds a stale database with a nested
  directory, a directory that is no database, and a file whose name starts with the
  prefix. \<^verbatim>\<open>/locked\<close> holds a stale database with a closed directory in it, a second stale
  database, and a directory that is no database.
\<close>

definition demo_disk :: node where
  "demo_disk =
     Dir True
       [(''proj'', Dir True
          [(''sample_1000'', Dir True [(''db.bin'', File), (''sub'', Dir True [(''x'', File)])]),
           (''other'', Dir True [(''k'', File)]),
           (''sample_x'', File)]),
        (''locked'', Dir True
          [(''sample_1'', Dir True [(''closed'', Dir False [(''f'', File)]), (''g'', File)]),
           (''sample_2'', Dir True [(''db.bin'', File)]),
           (''keep'', Dir True [])])]"

text \<open>
  Launching the external tool and waiting for it changes nothing but the console, the
  progress notification, the list of launches and the exceptions that escaped.
\<close>

definition log_only :: "world \<Rightarrow> world \<Rightarrow> bool" where
  "log_only w w' =
     (cwd w' = cwd w \<and> disk w' = disk w \<and> launched w' = launched w \<and>
      registered w' = registered w \<and> notices w' = notices w \<and> uncaught w' = uncaught w)"

definition demo_world :: world where
  "demo_world =
     \<lparr>cwd = ''/home/u'', disk = demo_disk, console = [], progress = [], launched = [],
      registered = [], notices = [], uncaught = []\<rparr>"

definition demo_child :: "nat \<Rightarrow> child" where
  "demo_child code = \<lparr>chunks = [], ending = Exited code\<rparr>"

definition demo_host :: "language option \<Rightarrow> string option \<Rightarrow> host" where
  "demo_host picked typed =
     \<lparr>dateNow = 1234, childProcess = demo_child 0, showQuickPick = picked, showInputBox = typed\<rparr>"

section \<open>Lemmas\<close>

subsection \<open>Paths\<close>


lemma splitOn_nonempty [simp]: "splitOn sep s \<noteq> []"
  by (induction s) (auto split: list.splits)

lemma splitOn_no_sep: "sep \<notin> set s \<Longrightarrow> splitOn sep s = [s]"
  by (induction s) auto

lemma splitOn_append: "splitOn sep (s @ sep # t) = splitOn sep s @ splitOn sep t"
  by (induction s) (auto split: list.splits)

lemma splitOn_sep_free: "x \<in> set (splitOn sep s) \<Longrightarrow> sep \<notin> set x"
  by (induction s arbitrary: x) (auto split: list.splits if_splits)


lemma normalizeSegments_norm_from: "normalizeSegments b path = norm_from b [] path"
  by (simp add: normalizeSegments_def norm_from_def)

lemma norm_from_Nil [simp]: "norm_from b acc [] = acc"
  by (simp add: norm_from_def splitSlash_def normalizeStep_def)

lemma norm_from_slash: "norm_from b acc (s @ CHR ''/'' # t) = norm_from b (norm_from b acc s) t"
  by (simp add: norm_from_def splitSlash_def splitOn_append)

lemma norm_from_slash0: "norm_from b acc (CHR ''/'' # t) = norm_from b acc t"
  using norm_from_slash [of b acc "[]" t] by simp

lemma norm_from_clean: "clean_name n \<Longrightarrow> norm_from b acc n = acc @ [n]"
  by (simp add: norm_from_def splitSlash_def splitOn_no_sep clean_name_def normalizeStep_def)

lemma norm_from_joinSlash:
  "list_all clean_name ss \<Longrightarrow> norm_from b acc (joinSlash ss) = acc @ ss"
proof (induction ss arbitrary: acc rule: joinWith.induct[of _ "CHR ''/''"])
  case (1 sep)
  then show ?case by (simp add: joinSlash_def)
next
  case (2 sep s)
  then show ?case by (simp add: joinSlash_def norm_from_clean)
next
  case (3 sep s t ss)
  then show ?case
    by (simp add: joinSlash_def norm_from_slash norm_from_clean)
qed

lemma isAbsolute_cpath [simp]: "isAbsolute (cpath ss)"
  by (simp add: isAbsolute_def cpath_def)

lemma resolveSegments_cpath:
  "list_all clean_name ss \<Longrightarrow> resolveSegments wd (cpath ss) = ss"
  by (simp add: resolveSegments_def resolveInput_def normalizeSegments_norm_from cpath_def
      norm_from_slash0 norm_from_slash norm_from_joinSlash isAbsolute_def)

lemma resolve_cpath: "list_all clean_name ss \<Longrightarrow> resolve wd (cpath ss) = cpath ss"
  using resolveSegments_cpath[of ss wd] by (simp add: resolve_def) (simp add: cpath_def)

lemma sanitizePath_cpath:
  "list_all clean_name ss \<Longrightarrow> sanitizePath (cpath ss) w = Returns (cpath ss) w"
  by (simp add: sanitizePath_def resolve_cpath)

lemma joinSlash_snoc_nonempty: "clean_name n \<Longrightarrow> joinSlash (ss @ [n]) \<noteq> []"
  by (induction ss rule: joinWith.induct[of _ "CHR ''/''"]) (auto simp: joinSlash_def clean_name_def)

lemma last_joinSlash_snoc: "clean_name n \<Longrightarrow> last (cpath ss @ CHR ''/'' # n) = last n"
  by (simp add: clean_name_def)

lemma join_cpath:
  assumes "list_all clean_name ss" "clean_name n"
  shows "join [cpath ss, n] = cpath (ss @ [n])"
proof -
  have n1: "n \<noteq> []" and n0: "CHR ''/'' \<notin> set n"
    using assms(2) by (simp_all add: clean_name_def)
  have "last n \<in> set n" using n1 by simp
  with n0 have n2: "last n \<noteq> CHR ''/''" by auto
  note n = n1 n2
  have segs: "normalizeSegments False (cpath ss @ CHR ''/'' # n) = ss @ [n]"
    using assms
    by (simp add: normalizeSegments_norm_from norm_from_slash cpath_def norm_from_slash0
        norm_from_joinSlash norm_from_clean)
  have "join [cpath ss, n] = normalize_path (cpath ss @ CHR ''/'' # n)"
    using n by (simp add: join_def joinSlash_def cpath_def)
  also have "\<dots> = cpath (ss @ [n])"
    using n segs joinSlash_snoc_nonempty[OF assms(2), of ss]
    by (simp add: normalize_path_def normalizeString_def Let_def isAbsolute_def cpath_def)
  finally show ?thesis .
qed


lemma normalizeStep_clean:
  "list_all clean_name acc \<Longrightarrow> CHR ''/'' \<notin> set seg \<Longrightarrow> list_all clean_name (normalizeStep False acc seg)"
  by (auto simp: normalizeStep_def clean_name_def list_all_iff dest: in_set_butlastD)

lemma foldl_normalizeStep_clean:
  "list_all clean_name acc \<Longrightarrow> \<forall>seg\<in>set segs. CHR ''/'' \<notin> set seg \<Longrightarrow>
   list_all clean_name (foldl (normalizeStep False) acc segs)"
  by (induction segs arbitrary: acc) (simp_all add: normalizeStep_clean)

lemma norm_from_clean_all:
  "list_all clean_name acc \<Longrightarrow> list_all clean_name (norm_from False acc path)"
  unfolding norm_from_def splitSlash_def
  by (rule foldl_normalizeStep_clean) (auto dest: splitOn_sep_free)

lemma resolveSegments_clean:
  "isAbsolute p \<Longrightarrow> list_all clean_name (resolveSegments wd p)"
  by (simp add: resolveSegments_def normalizeSegments_norm_from norm_from_clean_all)

lemma resolve_absolute: "isAbsolute p \<Longrightarrow> resolve wd p = cpath (resolveSegments wd p)"
  by (simp add: resolve_def cpath_def)

lemma sanitizePath_Returns_iff:
  "sanitizePath p w = Returns q w' \<longleftrightarrow> isAbsolute p \<and> p = resolve (cwd w) p \<and> q = p \<and> w' = w"
  by (auto simp: sanitizePath_def Let_def)

lemma sanitized_canonical:
  assumes "sanitizePath p w = Returns q w'"
  shows "p = cpath (resolveSegments (cwd w) p) \<and> list_all clean_name (resolveSegments (cwd w) p)"
  using assms resolve_absolute[of p "cwd w"] resolveSegments_clean[of p "cwd w"]
  by (auto simp: sanitizePath_Returns_iff)


lemma normalizeStep_proper:
  "list_all proper acc \<Longrightarrow> CHR ''/'' \<notin> set seg \<Longrightarrow> list_all proper (normalizeStep b acc seg)"
  by (auto simp: normalizeStep_def proper_def list_all_iff dest: in_set_butlastD)

lemma foldl_normalizeStep_proper:
  "list_all proper acc \<Longrightarrow> \<forall>seg\<in>set segs. CHR ''/'' \<notin> set seg \<Longrightarrow>
   list_all proper (foldl (normalizeStep b) acc segs)"
  by (induction segs arbitrary: acc) (simp_all add: normalizeStep_proper)

lemma normalizeSegments_proper: "list_all proper (normalizeSegments b path)"
  unfolding normalizeSegments_def splitSlash_def
  by (rule foldl_normalizeStep_proper) (auto dest: splitOn_sep_free)

lemma joinWith_Cons:
  "joinWith sep (s # rest) = s @ (if rest = [] then [] else sep # joinWith sep rest)"
  by (cases rest) simp_all

lemma joinSlash_proper_relative:
  "list_all proper ss \<Longrightarrow> \<not> isAbsolute (joinSlash ss)"
proof (cases ss)
  case Nil
  then show ?thesis by (simp add: joinSlash_def isAbsolute_def)
next
  case (Cons s rest)
  assume "list_all proper ss"
  then have s: "s \<noteq> []" "CHR ''/'' \<notin> set s"
    using Cons by (auto simp: proper_def)
  then have "hd s \<in> set s" by simp
  with s(2) have "hd s \<noteq> CHR ''/''" by auto
  with s(1) have "\<not> isAbsolute s" by (cases s) (simp_all add: isAbsolute_def)
  then show ?thesis using Cons s(1)
    by (cases s) (simp_all add: joinSlash_def joinWith_Cons isAbsolute_def)
qed

lemma isAbsolute_append: "p \<noteq> [] \<Longrightarrow> isAbsolute (p @ q) = isAbsolute p"
  by (cases p) (simp_all add: isAbsolute_def)

lemma normalize_path_relative: "\<not> isAbsolute p \<Longrightarrow> \<not> isAbsolute (normalize_path p)"
  using joinSlash_proper_relative[OF normalizeSegments_proper, of True p]
  by (auto simp: normalize_path_def Let_def normalizeString_def isAbsolute_append)
     (simp_all add: isAbsolute_def)

lemma join_relative:
  assumes "\<not> isAbsolute root" "x \<noteq> []" "\<not> isAbsolute x"
  shows "\<not> isAbsolute (join [root, x])"
proof (cases "root = []")
  case True
  then show ?thesis using assms by (simp add: join_def joinSlash_def normalize_path_relative)
next
  case False
  then have "\<not> isAbsolute (root @ CHR ''/'' # x)" using assms(1) by (simp add: isAbsolute_append)
  then show ?thesis using False assms(2)
    by (simp add: join_def joinSlash_def normalize_path_relative)
qed

lemma join_absolute:
  assumes "isAbsolute root" "clean_name n"
  shows "join [root, n] = cpath (normalizeSegments False root @ [n])"
    and "list_all clean_name (normalizeSegments False root @ [n])"
proof -
  have r: "root \<noteq> []" using assms(1) by (auto simp: isAbsolute_def)
  have n1: "n \<noteq> []" and n0: "CHR ''/'' \<notin> set n"
    using assms(2) by (simp_all add: clean_name_def)
  have "last n \<in> set n" using n1 by simp
  with n0 have n2: "last n \<noteq> CHR ''/''" by auto
  note n = n1 n2
  have segs: "normalizeSegments False (root @ CHR ''/'' # n) = normalizeSegments False root @ [n]"
    using assms(2) by (simp add: normalizeSegments_norm_from norm_from_slash norm_from_clean)
  show cl: "list_all clean_name (normalizeSegments False root @ [n])"
    using assms(2) by (simp add: normalizeSegments_norm_from norm_from_clean_all)
  have "join [root, n] = normalize_path (root @ CHR ''/'' # n)"
    using n r by (simp add: join_def joinSlash_def)
  also have "\<dots> = cpath (normalizeSegments False root @ [n])"
    using n r segs assms(1) joinSlash_snoc_nonempty[OF assms(2), of "normalizeSegments False root"]
    by (simp add: normalize_path_def normalizeString_def Let_def isAbsolute_append cpath_def)
  finally show "join [root, n] = cpath (normalizeSegments False root @ [n])" .
qed

lemma digit_set: "d < 10 \<Longrightarrow> digit d \<in> set ''0123456789''"
  unfolding digit_def by (rule nth_mem) simp

lemma toString_digits: "set (toString n) \<subseteq> set ''0123456789''"
proof (induction n rule: toString.induct)
  case (1 n)
  show ?case
  proof (cases "n < 10")
    case True
    then show ?thesis using digit_set[of n] by (subst toString.simps) simp
  next
    case False
    then show ?thesis using 1 digit_set[of "n mod 10"]
      by (subst toString.simps) simp
  qed
qed

lemma toString_no_slash: "CHR ''/'' \<notin> set (toString n)"
proof -
  have "CHR ''/'' \<notin> set ''0123456789''" by simp
  then show ?thesis using toString_digits[of n] by blast
qed

lemma clean_sample: "clean_name (''sample_'' @ toString n)"
  using toString_no_slash[of n] by (simp add: clean_name_def)

lemma toString_nonempty: "toString n \<noteq> []"
  by (subst toString.simps) simp

lemma sample_relative: "\<not> isAbsolute (''sample_'' @ toString n)"
  by (simp add: isAbsolute_def)

subsection \<open>The file system\<close>

lemma walk_append:
  "walk d (ss @ ts) = (case walk d ss of Inl e \<Rightarrow> Inl e | Inr c \<Rightarrow> walk c ts)"
  by (induction d ss rule: walk.induct) (auto split: option.splits)

lemma map_of_upd_entry_same:
  "map_of es n = Some c \<Longrightarrow> map_of (upd_entry n (Some z) es) n = Some z"
  by (induction es) (auto split: if_splits)

lemma upd_entry_twice:
  "upd_entry n x (upd_entry n (Some z) es) = upd_entry n x es"
  by (induction es) auto

lemma upd_entry_mid:
  "n \<notin> fst ` set done \<Longrightarrow> upd_entry n x (done @ (n, c) # rest) = done @ entry_list n x @ rest"
  by (induction "done") auto

lemma map_of_mid:
  "n \<notin> fst ` set done \<Longrightarrow> map_of (done @ (n, c) # rest) n = Some c"
  by (induction "done") auto

lemma put_append:
  "walk d ss = Inr c \<Longrightarrow> ts \<noteq> [] \<Longrightarrow> put d (ss @ ts) x = put d ss (Some (put c ts x))"
proof (induction d ss rule: walk.induct)
  case (1 d)
  then show ?case by simp
next
  case (2 n ns)
  then show ?case by simp
next
  case (3 a es n ns)
  then show ?case by (auto split: option.splits if_splits)
qed

lemma walk_put_same:
  "walk d ss = Inr c \<Longrightarrow> walk (put d ss (Some c')) ss = Inr c'"
proof (induction d ss rule: walk.induct)
  case (1 d)
  then show ?case by simp
next
  case (2 n ns)
  then show ?case by simp
next
  case (3 a es n ns)
  then show ?case by (auto split: option.splits if_splits simp: map_of_upd_entry_same)
qed

lemma put_put:
  "walk d ss = Inr c \<Longrightarrow> ss \<noteq> [] \<or> x \<noteq> None \<Longrightarrow> put (put d ss (Some c1)) ss x = put d ss x"
proof (induction d ss rule: walk.induct)
  case (1 d)
  then show ?case by (auto split: option.splits)
next
  case (2 n ns)
  then show ?case by simp
next
  case (3 a es n ns)
  then show ?case
    by (auto split: option.splits if_splits simp: map_of_upd_entry_same upd_entry_twice)
qed

lemma upd_entry_same: "map_of es n = Some c \<Longrightarrow> upd_entry n (Some c) es = es"
  by (induction es) (auto split: if_splits)

lemma put_same: "walk d ss = Inr c \<Longrightarrow> put d ss (Some c) = d"
proof (induction d ss rule: walk.induct)
  case (1 d)
  then show ?case by simp
next
  case (2 n ns)
  then show ?case by simp
next
  case (3 a es n ns)
  then show ?case by (auto split: option.splits if_splits simp: upd_entry_same)
qed

subsection \<open>What the cleanup leaves alone\<close>

lemma cleanup_only_refl [simp]: "cleanup_only w w"
  by (simp add: cleanup_only_def)

lemma cleanup_only_trans: "cleanup_only w w1 \<Longrightarrow> cleanup_only w1 w2 \<Longrightarrow> cleanup_only w w2"
  by (simp add: cleanup_only_def)

lemma framedI: "(\<And>w w'. final (m w) = Some w' \<Longrightarrow> cleanup_only w w') \<Longrightarrow> framed m"
  by (auto simp: framed_def split: option.splits)

lemma framedD: "framed m \<Longrightarrow> final (m w) = Some w' \<Longrightarrow> cleanup_only w w'"
  by (auto simp: framed_def split: option.splits dest: spec[of _ w])

lemma framed_readdir: "framed (readdir p)"
  by (rule framedI) (auto simp: readdir_def cleanup_only_def split: sum.splits)

lemma framed_lstat: "framed (lstat p)"
  by (rule framedI) (auto simp: lstat_def cleanup_only_def split: sum.splits)

lemma framed_unlink: "framed (unlink p)"
  by (rule framedI) (auto simp: unlink_def cleanup_only_def split: sum.splits)

lemma framed_rmdir: "framed (rmdir p)"
  by (rule framedI) (auto simp: rmdir_def cleanup_only_def split: sum.splits)

lemma framed_sanitizePath: "framed (sanitizePath p)"
  by (rule framedI) (auto simp: sanitizePath_def Let_def cleanup_only_def split: if_splits)

lemma framed_console_error: "framed (console_error msg e)"
  by (rule framedI) (auto simp: console_error_def cleanup_only_def)

lemma framed_Returns: "framed (Returns a)"
  by (rule framedI) auto

lemma framed_await:
  assumes "framed m" "\<And>a. framed (f a)"
  shows "framed (await m f)"
proof (rule framedI)
  fix w w' assume fin: "final (await m f w) = Some w'"
  show "cleanup_only w w'"
  proof (cases "m w")
    case (Returns a w1)
    then have "cleanup_only w w1" using framedD[OF assms(1), of w w1] by simp
    moreover have "cleanup_only w1 w'" using fin Returns framedD[OF assms(2), of a w1 w']
      by (simp add: await_def)
    ultimately show ?thesis by (rule cleanup_only_trans)
  next
    case (Throws e w1)
    then show ?thesis using fin framedD[OF assms(1), of w w1] by (simp add: await_def)
  next
    case (Pending w1)
    then show ?thesis using fin framedD[OF assms(1), of w w1] by (simp add: await_def)
  next
    case OutOfFuel
    then show ?thesis using fin by (simp add: await_def)
  qed
qed

lemma framed_try_catch:
  assumes "framed m" "\<And>e. framed (h e)"
  shows "framed (try_catch m h)"
proof (rule framedI)
  fix w w' assume fin: "final (try_catch m h w) = Some w'"
  show "cleanup_only w w'"
  proof (cases "m w")
    case (Returns a w1)
    then show ?thesis using fin framedD[OF assms(1), of w w1] by (simp add: try_catch_def)
  next
    case (Throws e w1)
    then have "cleanup_only w w1" using framedD[OF assms(1), of w w1] by simp
    moreover have "cleanup_only w1 w'" using fin Throws framedD[OF assms(2), of e w1 w']
      by (simp add: try_catch_def)
    ultimately show ?thesis by (rule cleanup_only_trans)
  next
    case (Pending w1)
    then show ?thesis using fin framedD[OF assms(1), of w w1] by (simp add: try_catch_def)
  next
    case OutOfFuel
    then show ?thesis using fin by (simp add: try_catch_def)
  qed
qed

lemma framed_forOf:
  assumes "\<And>x. framed (body x)"
  shows "framed (forOf xs body)"
proof (induction xs)
  case Nil
  show ?case by (rule framedI) auto
next
  case (Cons x xs)
  have "forOf (x # xs) body = await (body x) (\<lambda>_. forOf xs body)" by (rule ext) simp
  then show ?case using Cons assms by (simp add: framed_await)
qed

lemma cleanupDbFolder_Suc:
  "cleanupDbFolder (Suc fuel) folderPath =
     try_catch
       (await (readdir folderPath) (\<lambda>files.
        await (forOf files (cleanupDbFolder_body fuel folderPath)) (\<lambda>_. rmdir folderPath)))
       (console_error ''Error cleaning up database subfolder:'')"
  by (rule ext) (simp add: cleanupDbFolder_body_def[abs_def])

declare cleanupDbFolder.simps(2) [simp del]

lemma framed_cleanupDbFolder: "framed (cleanupDbFolder fuel p)"
proof (induction fuel arbitrary: p)
  case 0
  have "cleanupDbFolder 0 p = (\<lambda>w. OutOfFuel)" by (rule ext) simp
  then show ?case by (simp add: framed_def)
next
  case (Suc fuel)
  have inner: "framed (\<lambda>w'. if isDirectory st then cleanupDbFolder fuel q w' else unlink q w')" for st q
    using Suc[of q] framed_unlink[of q] by (cases "isDirectory st") simp_all
  have body: "framed (cleanupDbFolder_body fuel p f)" for f
    unfolding cleanupDbFolder_body_def
    by (rule framed_await[OF framed_sanitizePath], rule framed_await[OF framed_lstat], rule inner)
  have loop: "framed (forOf fs (cleanupDbFolder_body fuel p))" for fs
    by (rule framed_forOf) (rule body)
  show ?case
    unfolding cleanupDbFolder_Suc
    apply (rule framed_try_catch)
     apply (rule framed_await[OF framed_readdir])
     apply (rule framed_await[OF loop])
     apply (rule framed_rmdir)
    apply (rule framed_console_error)
    done
qed

subsection \<open>The recursive deletion computes \<open>reap\<close>\<close>

lemma readdir_cpath:
  "list_all clean_name ss \<Longrightarrow> walk (disk w) ss = Inr (Dir a es) \<Longrightarrow>
   readdir (cpath ss) w = (if a then Returns (map fst es) w else Throws (FsError EACCES) w)"
  by (simp add: readdir_def resolveSegments_cpath fs_readdir_def)

lemma lstat_cpath:
  "list_all clean_name ss \<Longrightarrow> walk (disk w) ss = Inr c \<Longrightarrow>
   lstat (cpath ss) w = Returns (Stats (is_dir c)) w"
  by (simp add: lstat_def resolveSegments_cpath fs_lstat_def)

lemma unlink_cpath:
  "list_all clean_name ss \<Longrightarrow> ss \<noteq> [] \<Longrightarrow> walk (disk w) ss = Inr File \<Longrightarrow>
   unlink (cpath ss) w = Returns () (w\<lparr>disk := put (disk w) ss None\<rparr>)"
  by (simp add: unlink_def resolveSegments_cpath fs_unlink_def)

lemma rmdir_cpath:
  "list_all clean_name ss \<Longrightarrow> ss \<noteq> [] \<Longrightarrow> walk (disk w) ss = Inr (Dir a es) \<Longrightarrow>
   rmdir (cpath ss) w =
     (if es = [] then Returns () (w\<lparr>disk := put (disk w) ss None\<rparr>)
      else Throws (FsError ENOTEMPTY) w)"
  by (simp add: rmdir_def resolveSegments_cpath fs_rmdir_def)

lemma walk_child:
  assumes "walk d ss = Inr (Dir True (dn @ (n, c) # rest))" "n \<notin> fst ` set dn"
  shows "walk d (ss @ [n]) = Inr c"
  using assms(1) map_of_mid[OF assms(2), of c rest]
  by (simp add: walk_append del: map_of_append)

lemma put_child:
  assumes "walk d ss = Inr (Dir True (dn @ (n, c) # rest))" "n \<notin> fst ` set dn"
  shows "put d (ss @ [n]) x = put d ss (Some (Dir True (dn @ entry_list n x @ rest)))"
  using assms put_append[of d ss "Dir True (dn @ (n, c) # rest)" "[n]" x]
  by (simp add: upd_entry_mid)

lemma entry_list_names: "fst ` set (entry_list n x) \<subseteq> {n}"
  by (cases x) simp_all

lemma console_error_subfolder:
  "console_error ''Error cleaning up database subfolder:'' (FsError e) w =
     Returns () (w\<lparr>console := console w @ [subfolder_error e]\<rparr>)"
  by (simp add: console_error_def subfolder_error_def)

lemma cleanupDbFolder_loop:
  assumes IH: "\<And>c ss w. \<lbrakk>wf_node c; list_all clean_name ss; ss \<noteq> []; walk (disk w) ss = Inr c;
                  is_dir c; depth c \<le> fuel\<rbrakk> \<Longrightarrow>
            cleanupDbFolder fuel (cpath ss) w =
              Returns () (w\<lparr>disk := put (disk w) ss (reap c),
                            console := console w @ map subfolder_error (reap_errors c)\<rparr>)"
    and ss: "list_all clean_name ss"
  shows "\<lbrakk>wf_entries rest; fst ` set dn \<inter> fst ` set rest = {}; depth_entries rest \<le> fuel;
          walk (disk w) ss = Inr (Dir True (dn @ rest))\<rbrakk> \<Longrightarrow>
         forOf (map fst rest) (cleanupDbFolder_body fuel (cpath ss)) w =
           Returns () (w\<lparr>disk := put (disk w) ss (Some (Dir True (dn @ reap_entries rest))),
                         console := console w @ map subfolder_error (reap_errors_entries rest)\<rparr>)"
proof (induction rest arbitrary: dn w)
  case Nil
  then show ?case by (simp add: put_same)
next
  case (Cons e rest)
  obtain n c where e: "e = (n, c)" by (cases e)
  have n: "clean_name n" "n \<notin> fst ` set rest" "n \<notin> fst ` set dn"
    and c: "wf_node c" "depth c \<le> fuel"
    and rest: "wf_entries rest" "depth_entries rest \<le> fuel"
    using Cons.prems e by auto
  have wk: "walk (disk w) ss = Inr (Dir True (dn @ (n, c) # rest))"
    using Cons.prems(4) e by simp
  have ssn: "list_all clean_name (ss @ [n])" "ss @ [n] \<noteq> []" using ss n(1) by simp_all
  have wc: "walk (disk w) (ss @ [n]) = Inr c" by (rule walk_child[OF wk n(3)])
  define x where "x = (if is_dir c then reap c else None)"
  define errs where "errs = (if is_dir c then reap_errors c else [])"
  define w1 where "w1 = w\<lparr>disk := put (disk w) (ss @ [n]) x,
                          console := console w @ map subfolder_error errs\<rparr>"
  have san: "sanitizePath (join [cpath ss, n]) w = Returns (cpath (ss @ [n])) w"
    using join_cpath[OF ss n(1)] sanitizePath_cpath[OF ssn(1)] by simp
  have ls: "lstat (cpath (ss @ [n])) w = Returns (Stats (is_dir c)) w"
    by (rule lstat_cpath[OF ssn(1) wc])
  have step: "cleanupDbFolder_body fuel (cpath ss) n w = Returns () w1"
  proof (cases "is_dir c")
    case True
    then show ?thesis
      using IH[OF c(1) ssn wc True c(2)]
      by (simp add: cleanupDbFolder_body_def await_def san ls w1_def x_def errs_def)
  next
    case False
    then have "c = File" by (cases c) simp_all
    then show ?thesis
      using unlink_cpath[OF ssn] wc False
      by (simp add: cleanupDbFolder_body_def await_def san ls w1_def x_def errs_def)
  qed
  have d1: "disk w1 = put (disk w) ss (Some (Dir True ((dn @ entry_list n x) @ rest)))"
    using put_child[OF wk n(3), of x] by (simp add: w1_def)
  have wk1: "walk (disk w1) ss = Inr (Dir True ((dn @ entry_list n x) @ rest))"
    unfolding d1 by (rule walk_put_same[OF wk])
  have disj: "fst ` set (dn @ entry_list n x) \<inter> fst ` set rest = {}"
    using Cons.prems(2) e n(2) entry_list_names[of n x] by auto
  have tail: "forOf (map fst rest) (cleanupDbFolder_body fuel (cpath ss)) w1 =
      Returns () (w1\<lparr>disk := put (disk w1) ss (Some (Dir True ((dn @ entry_list n x) @ reap_entries rest))),
                     console := console w1 @ map subfolder_error (reap_errors_entries rest)\<rparr>)"
    by (rule Cons.IH[OF rest(1) disj rest(2) wk1])
  have pp: "put (disk w1) ss (Some (Dir True ((dn @ entry_list n x) @ reap_entries rest))) =
            put (disk w) ss (Some (Dir True ((dn @ entry_list n x) @ reap_entries rest)))"
    unfolding d1 by (rule put_put[OF wk]) simp
  have re: "reap_entries (e # rest) = entry_list n x @ reap_entries rest"
    by (simp add: e x_def)
  have ee: "reap_errors_entries (e # rest) = errs @ reap_errors_entries rest"
    by (simp add: e errs_def)
  have "forOf (map fst (e # rest)) (cleanupDbFolder_body fuel (cpath ss)) w =
        forOf (map fst rest) (cleanupDbFolder_body fuel (cpath ss)) w1"
    by (simp add: e await_def step)
  also note tail
  finally show ?case
    unfolding pp re ee by (simp add: w1_def)
qed

lemma cleanupDbFolder_refines:
  "\<lbrakk>wf_node c; list_all clean_name ss; ss \<noteq> []; walk (disk w) ss = Inr c; is_dir c;
    depth c \<le> fuel\<rbrakk> \<Longrightarrow>
   cleanupDbFolder fuel (cpath ss) w =
     Returns () (w\<lparr>disk := put (disk w) ss (reap c),
                   console := console w @ map subfolder_error (reap_errors c)\<rparr>)"
proof (induction fuel arbitrary: c ss w)
  case 0
  then show ?case by (cases c) simp_all
next
  case (Suc fuel)
  from Suc.prems(5) obtain a es where c: "c = Dir a es" by (cases c) simp_all
  have wk: "walk (disk w) ss = Inr (Dir a es)" using Suc.prems(4) c by simp
  show ?case
  proof (cases a)
    case False
    then show ?thesis
      using readdir_cpath[OF Suc.prems(2) wk] put_same[OF wk]
      by (simp add: cleanupDbFolder_Suc try_catch_def await_def console_error_subfolder c)
  next
    case True
    have wk0: "walk (disk w) ss = Inr (Dir True ([] @ es))" using wk True by simp
    have loop: "forOf (map fst es) (cleanupDbFolder_body fuel (cpath ss)) w =
        Returns () (w\<lparr>disk := put (disk w) ss (Some (Dir True ([] @ reap_entries es))),
                      console := console w @ map subfolder_error (reap_errors_entries es)\<rparr>)"
      apply (rule cleanupDbFolder_loop[OF _ Suc.prems(2) _ _ _ wk0])
          apply (rule Suc.IH; assumption)
      using Suc.prems c by simp_all
    define w1 where "w1 = w\<lparr>disk := put (disk w) ss (Some (Dir True (reap_entries es))),
                      console := console w @ map subfolder_error (reap_errors_entries es)\<rparr>"
    have loop1: "forOf (map fst es) (cleanupDbFolder_body fuel (cpath ss)) w = Returns () w1"
      using loop by (simp add: w1_def)
    have wk1: "walk (disk w1) ss = Inr (Dir True (reap_entries es))"
      using walk_put_same[OF wk] by (simp add: w1_def)
    have pp: "put (disk w1) ss None = put (disk w) ss None"
      using put_put[OF wk, of None] Suc.prems(3) by (simp add: w1_def)
    have rd: "readdir (cpath ss) w = Returns (map fst es) w"
      using readdir_cpath[OF Suc.prems(2) wk] True by simp
    have run: "cleanupDbFolder (Suc fuel) (cpath ss) w =
        try_catch (rmdir (cpath ss)) (console_error ''Error cleaning up database subfolder:'') w1"
      by (simp add: cleanupDbFolder_Suc try_catch_def await_def rd loop1)
    show ?thesis
    proof (cases "reap_entries es = []")
      case e: True
      have "try_catch (rmdir (cpath ss)) (console_error ''Error cleaning up database subfolder:'') w1
            = Returns () (w1\<lparr>disk := put (disk w) ss None\<rparr>)"
        using rmdir_cpath[OF Suc.prems(2,3) wk1] e pp by (simp add: try_catch_def)
      then show ?thesis unfolding run using e True by (simp add: c w1_def)
    next
      case e: False
      have "try_catch (rmdir (cpath ss)) (console_error ''Error cleaning up database subfolder:'') w1
            = Returns () (w1\<lparr>console := console w1 @ [subfolder_error ENOTEMPTY]\<rparr>)"
        using rmdir_cpath[OF Suc.prems(2,3) wk1] e
        by (simp add: try_catch_def console_error_subfolder)
      then show ?thesis unfolding run using e True by (simp add: c w1_def)
    qed
  qed
qed

subsection \<open>The cleanup of a source root computes \<open>sweep\<close>\<close>

lemma cleanup_reports_0 [simp]: "cleanup_reports t p 0 = []"
  by (simp add: cleanup_reports_def)

lemma cleanup_reports_Suc:
  "cleanup_reports t p (Suc k) =
     (''Cleaning up old databases'', Ratio (Suc p) t) # cleanup_reports t (Suc p) k"
  by (simp add: cleanup_reports_def upt_conv_Cons)

lemma cleanupOldDb_loop_refines:
  assumes rs: "list_all clean_name rs"
  shows "\<lbrakk>wf_entries rest; fst ` set dn \<inter> fst ` set rest = {}; depth_entries rest \<le> fuel;
          walk (disk w) rs = Inr (Dir True (dn @ rest))\<rbrakk> \<Longrightarrow>
         cleanupOldDb_loop fuel (cpath rs) t p (map fst rest) w =
           Returns () (w\<lparr>disk := put (disk w) rs (Some (Dir True (dn @ sweep rest))),
                         console := console w @ map subfolder_error (sweep_errors rest),
                         progress := progress w @ cleanup_reports t p (length rest)\<rparr>)"
proof (induction rest arbitrary: dn w p)
  case Nil
  then show ?case by (simp add: put_same)
next
  case (Cons e rest)
  obtain n c where e: "e = (n, c)" by (cases e)
  have n: "clean_name n" "n \<notin> fst ` set rest" "n \<notin> fst ` set dn"
    and c: "wf_node c" "depth c \<le> fuel"
    and rest: "wf_entries rest" "depth_entries rest \<le> fuel"
    using Cons.prems e by auto
  have wk: "walk (disk w) rs = Inr (Dir True (dn @ (n, c) # rest))"
    using Cons.prems(4) e by simp
  have rsn: "list_all clean_name (rs @ [n])" "rs @ [n] \<noteq> []" using rs n(1) by simp_all
  have wc: "walk (disk w) (rs @ [n]) = Inr c" by (rule walk_child[OF wk n(3)])
  define x where "x = (if stale (n, c) then reap c else Some c)"
  define errs where "errs = (if stale (n, c) then reap_errors c else [])"
  define w1 where "w1 = w\<lparr>disk := put (disk w) (rs @ [n]) x,
                          console := console w @ map subfolder_error errs\<rparr>"
  define w2 where "w2 = report ''Cleaning up old databases'' (Ratio (Suc p) t) w1"
  have jn: "join [cpath rs, n] = cpath (rs @ [n])" by (rule join_cpath[OF rs n(1)])
  have ls: "lstat (cpath (rs @ [n])) w = Returns (Stats (is_dir c)) w"
    by (rule lstat_cpath[OF rsn(1) wc])
  have mid: "(if is_dir c \<and> startsWith n ''sample_''
              then cleanupDbFolder fuel (cpath (rs @ [n])) else Returns ()) w = Returns () w1"
  proof (cases "stale (n, c)")
    case True
    then have d: "is_dir c" by (simp add: stale_def)
    show ?thesis
      using True cleanupDbFolder_refines[OF c(1) rsn wc d c(2)]
      by (simp add: stale_def w1_def x_def errs_def)
  next
    case False
    then have nc: "\<not> (is_dir c \<and> startsWith n ''sample_'')" by (simp add: stale_def)
    have "w1 = w" using False put_same[OF wc] by (simp add: w1_def x_def errs_def)
    with nc show ?thesis by auto
  qed
  have d1: "disk w2 = put (disk w) rs (Some (Dir True ((dn @ entry_list n x) @ rest)))"
    using put_child[OF wk n(3), of x] by (simp add: w2_def w1_def report_def)
  have wk2: "walk (disk w2) rs = Inr (Dir True ((dn @ entry_list n x) @ rest))"
    unfolding d1 by (rule walk_put_same[OF wk])
  have disj: "fst ` set (dn @ entry_list n x) \<inter> fst ` set rest = {}"
    using Cons.prems(2) e n(2) entry_list_names[of n x] by auto
  have tail: "cleanupOldDb_loop fuel (cpath rs) t (Suc p) (map fst rest) w2 =
      Returns () (w2\<lparr>disk := put (disk w2) rs (Some (Dir True ((dn @ entry_list n x) @ sweep rest))),
                     console := console w2 @ map subfolder_error (sweep_errors rest),
                     progress := progress w2 @ cleanup_reports t (Suc p) (length rest)\<rparr>)"
    by (rule Cons.IH[OF rest(1) disj rest(2) wk2])
  have pp: "put (disk w2) rs (Some (Dir True ((dn @ entry_list n x) @ sweep rest))) =
            put (disk w) rs (Some (Dir True ((dn @ entry_list n x) @ sweep rest)))"
    unfolding d1 by (rule put_put[OF wk]) simp
  have sw: "sweep (e # rest) = entry_list n x @ sweep rest"
    by (simp add: e x_def)
  have se: "sweep_errors (e # rest) = errs @ sweep_errors rest"
    by (simp add: e errs_def)
  have "cleanupOldDb_loop fuel (cpath rs) t p (map fst (e # rest)) w =
        cleanupOldDb_loop fuel (cpath rs) t (Suc p) (map fst rest) w2"
    by (simp add: e Let_def jn await_def ls mid w2_def split del: if_split)
  also note tail
  finally show ?case
    unfolding pp sw se by (simp add: w2_def w1_def report_def cleanup_reports_Suc)
qed

lemma cleanupOldDb_refines:
  assumes "list_all clean_name rs" "walk (disk w) rs = Inr (Dir True es)" "wf_entries es"
    "depth_entries es \<le> fuel"
  shows "cleanupOldDb fuel (cpath rs) w =
           Returns () (w\<lparr>disk := put (disk w) rs (Some (Dir True (sweep es))),
                         console := console w @ map subfolder_error (sweep_errors es),
                         progress := progress w @
                           (''Cleaning up old databases'', Units 0) #
                           cleanup_reports (length es) 0 (length es)\<rparr>)"
proof -
  define w0 where "w0 = report ''Cleaning up old databases'' (Units 0) w"
  have wk0: "walk (disk w0) rs = Inr (Dir True ([] @ es))" using assms(2) by (simp add: w0_def report_def)
  have loop: "cleanupOldDb_loop fuel (cpath rs) (length es) 0 (map fst es) w0 =
      Returns () (w0\<lparr>disk := put (disk w0) rs (Some (Dir True ([] @ sweep es))),
                     console := console w0 @ map subfolder_error (sweep_errors es),
                     progress := progress w0 @ cleanup_reports (length es) 0 (length es)\<rparr>)"
    by (rule cleanupOldDb_loop_refines[OF assms(1) assms(3) _ assms(4) wk0]) simp
  have rd: "readdir (cpath rs) w = Returns (map fst es) w"
    using readdir_cpath[OF assms(1,2)] by simp
  show ?thesis
    using loop
    by (simp add: cleanupOldDb_def try_catch_def await_def sanitizePath_cpath[OF assms(1)] rd
        withProgress_def w0_def report_def)
qed

lemma reap_accessible:
  "accessible c \<Longrightarrow> is_dir c \<Longrightarrow> reap c = None \<and> reap_errors c = []"
  "accessible_entries es \<Longrightarrow> reap_entries es = [] \<and> reap_errors_entries es = []"
  by (induction c and es rule: accessible_accessible_entries.induct) auto

lemma sweep_accessible:
  "\<forall>e\<in>set es. stale e \<longrightarrow> accessible (snd e) \<Longrightarrow>
   sweep es = filter (\<lambda>e. \<not> stale e) es \<and> sweep_errors es = []"
  by (induction es) (auto simp: reap_accessible stale_def)

lemma sweep_names: "fst ` set (sweep es) \<subseteq> fst ` set es"
proof (induction es)
  case Nil
  show ?case by simp
next
  case (Cons e es)
  obtain n c where e: "e = (n, c)" by (cases e)
  show ?case using Cons entry_list_names[of n "reap c"] by (auto simp: e)
qed

lemma sweep_removes:
  "wf_entries es \<Longrightarrow> e \<in> set es \<Longrightarrow> stale e \<Longrightarrow> accessible (snd e) \<Longrightarrow>
   fst e \<notin> fst ` set (sweep es)"
proof (induction es)
  case Nil
  then show ?case by simp
next
  case (Cons a es)
  obtain n c where a: "a = (n, c)" by (cases a)
  have nn: "n \<notin> fst ` set es" and wf: "wf_entries es" using Cons.prems(1) a by auto
  show ?case
  proof (cases "e = a")
    case True
    then have "reap c = None" using Cons.prems(3,4) a reap_accessible(1)[of c] by (simp add: stale_def)
    then show ?thesis using True a nn sweep_names[of es] Cons.prems(3) by auto
  next
    case False
    then have ein: "e \<in> set es" using Cons.prems(2) by simp
    then have "fst e \<noteq> n" using nn by force
    moreover have "fst e \<notin> fst ` set (sweep es)" by (rule Cons.IH[OF wf ein Cons.prems(3,4)])
    ultimately show ?thesis using entry_list_names[of n "reap c"] by (auto simp: a)
  qed
qed

lemma sweep_keeps: "e \<in> set es \<Longrightarrow> \<not> stale e \<Longrightarrow> e \<in> set (sweep es)"
  by (induction es) auto

lemma framed_cleanupOldDb_loop: "framed (cleanupOldDb_loop fuel sp t p fs)"
proof (induction fs arbitrary: p)
  case Nil
  have "cleanupOldDb_loop fuel sp t p [] = Returns ()" by (rule ext) simp
  then show ?case by (simp add: framed_Returns)
next
  case (Cons f fs)
  have rep: "framed (\<lambda>w'. cleanupOldDb_loop fuel sp t (p + 1) fs
                (report ''Cleaning up old databases'' (Ratio (p + 1) t) w'))"
  proof (rule framedI)
    fix w w' assume "final (cleanupOldDb_loop fuel sp t (p + 1) fs
                (report ''Cleaning up old databases'' (Ratio (p + 1) t) w)) = Some w'"
    from framedD[OF Cons this] show "cleanup_only w w'"
      by (simp add: cleanup_only_def report_def)
  qed
  have mid: "framed (if isDirectory st \<and> startsWith f ''sample_''
                     then cleanupDbFolder fuel q else Returns ())" for st q
    by (simp add: framed_cleanupDbFolder framed_Returns)
  have "cleanupOldDb_loop fuel sp t p (f # fs) =
      await (lstat (join [sp, f])) (\<lambda>curStat.
         await (if isDirectory curStat \<and> startsWith f ''sample_''
                then cleanupDbFolder fuel (join [sp, f]) else Returns ()) (\<lambda>_ w'.
         cleanupOldDb_loop fuel sp t (p + 1) fs
           (report ''Cleaning up old databases'' (Ratio (p + 1) t) w')))"
    by (rule ext) (simp add: Let_def)
  then show ?case
    by (simp only:) (rule framed_await[OF framed_lstat], rule framed_await[OF mid], rule rep)
qed

lemma framed_cleanupOldDb: "framed (cleanupOldDb fuel p)"
proof -
  have rep: "framed (withProgress ''Cleaning up old databases'' (\<lambda>w.
          cleanupOldDb_loop fuel sp (length fs) 0 fs
            (report ''Cleaning up old databases'' (Units 0) w)))" for sp fs
  proof (rule framedI)
    fix w w' assume "final (withProgress ''Cleaning up old databases'' (\<lambda>w.
          cleanupOldDb_loop fuel sp (length fs) 0 fs
            (report ''Cleaning up old databases'' (Units 0) w)) w) = Some w'"
    then have "final (cleanupOldDb_loop fuel sp (length fs) 0 fs
            (report ''Cleaning up old databases'' (Units 0) w)) = Some w'"
      by (simp add: withProgress_def)
    from framedD[OF framed_cleanupOldDb_loop this] show "cleanup_only w w'"
      by (simp add: cleanup_only_def report_def)
  qed
  show ?thesis
    unfolding cleanupOldDb_def
    apply (rule framed_try_catch)
     apply (rule framed_await[OF framed_sanitizePath])
     apply (rule framed_await[OF framed_readdir])
     apply (rule rep)
    apply (rule framed_console_error)
    done
qed

lemma cleanupOldDb_no_throw: "cleanupOldDb fuel p w \<noteq> Throws e w'"
  by (simp add: cleanupOldDb_def try_catch_def console_error_def split: outcome.splits)

lemma cleanupDbFolder_no_throw: "cleanupDbFolder fuel p w \<noteq> Throws e w'"
  by (cases fuel) (simp_all add: cleanupDbFolder_Suc try_catch_def console_error_def split: outcome.splits)

subsection \<open>Launching the external tool\<close>

lemma executeCommand_Exited:
  "ending ch = Exited code \<Longrightarrow>
   executeCommand ch (file # args) w =
     Returns (Code (Some code))
       (w\<lparr>progress := progress w @ [(''Creating CodeQL database'', Units 0),
                                      (''Creating CodeQL database'', Units 100)],
          launched := launched w @ [ExecFile file args]\<rparr>)"
  by (simp add: executeCommand_def Let_def execFile_events_def resolve_with_def reject_with_def
      settle_def report_def)

lemma executeCommand_Killed:
  "ending ch = Killed sg \<Longrightarrow>
   executeCommand ch (file # args) w =
     Returns (Code None)
       (w\<lparr>progress := progress w @ [(''Creating CodeQL database'', Units 0),
                                      (''Creating CodeQL database'', Units 100)],
          launched := launched w @ [ExecFile file args]\<rparr>)"
  by (simp add: executeCommand_def Let_def execFile_events_def resolve_with_def reject_with_def
      settle_def report_def)

lemma executeCommand_SpawnFailed:
  "ending ch = SpawnFailed \<Longrightarrow>
   executeCommand ch (file # args) w =
     Throws SpawnError
       (w\<lparr>progress := progress w @ [(''Creating CodeQL database'', Units 0)],
          launched := launched w @ [ExecFile file args]\<rparr>)"
  by (simp add: executeCommand_def Let_def execFile_events_def resolve_with_def reject_with_def
      settle_def report_def)

lemma log_only_refl [simp]: "log_only w w"
  by (simp add: log_only_def)

lemma codeqlCmd_data:
  "\<exists>w'. foldl codeqlCmd_handler (s, w) (map (\<lambda>(st, d). OnData st d) cs) = (s, w') \<and> log_only w w'"
proof (induction cs arbitrary: w)
  case Nil
  show ?case by simp
next
  case (Cons c cs)
  obtain st d where c: "c = (st, d)" by (cases c)
  define w1 where "w1 = snd (codeqlCmd_handler (s, w) (OnData st d))"
  have h: "codeqlCmd_handler (s, w) (OnData st d) = (s, w1)" "log_only w w1"
    by (cases st; simp add: w1_def log_only_def report_def console_log_def)+
  from Cons[of w1] obtain w' where
    "foldl codeqlCmd_handler (s, w1) (map (\<lambda>(st, d). OnData st d) cs) = (s, w')" "log_only w1 w'"
    by blast
  then show ?case using h by (auto simp: c log_only_def)
qed

lemma codeqlCmd_Exited_0:
  assumes "ending ch = Exited 0"
  shows "\<exists>w'. codeqlCmd ch cmd w = Returns () w' \<and>
           log_only (w\<lparr>launched := launched w @ [SpawnShell cmd]\<rparr>) w'"
proof -
  define w1 where "w1 = (report ''Creating CodeQL database'' (Units 0) w)
                          \<lparr>launched := launched w @ [SpawnShell cmd]\<rparr>"
  obtain w2 where f: "foldl codeqlCmd_handler (None, w1) (map (\<lambda>(st, d). OnData st d) (chunks ch)) = (None, w2)"
    and l: "log_only w1 w2" using codeqlCmd_data[of None w1 "chunks ch"] by blast
  show ?thesis
    using assms f l
    by (simp add: codeqlCmd_def try_catch_def withProgress_def Let_def spawn_events_def w1_def
        resolve_with_def settle_def report_def console_log_def log_only_def show_code_def
        show_signal_def)
qed

lemma codeqlCmd_failed:
  assumes "ending ch = Exited (Suc k) \<or> ending ch = Killed sg"
  shows "\<exists>w'. codeqlCmd ch cmd w = Pending w' \<and>
           log_only (w\<lparr>launched := launched w @ [SpawnShell cmd],
                        uncaught := uncaught w @ [ReferenceError ''stderr'']\<rparr>) w'"
proof -
  define w1 where "w1 = (report ''Creating CodeQL database'' (Units 0) w)
                          \<lparr>launched := launched w @ [SpawnShell cmd]\<rparr>"
  obtain w2 where f: "foldl codeqlCmd_handler (None, w1) (map (\<lambda>(st, d). OnData st d) (chunks ch)) = (None, w2)"
    and l: "log_only w1 w2" using codeqlCmd_data[of None w1 "chunks ch"] by blast
  show ?thesis
    using assms f l
    by (auto simp add: codeqlCmd_def try_catch_def withProgress_def Let_def spawn_events_def w1_def
        resolve_with_def settle_def report_def console_log_def log_only_def show_code_def
        show_signal_def)
qed

lemma codeqlCmd_SpawnFailed:
  assumes "ending ch = SpawnFailed"
  shows "\<exists>w'. codeqlCmd ch cmd w = Returns () w' \<and>
           log_only (w\<lparr>launched := launched w @ [SpawnShell cmd]\<rparr>) w'"
  using assms
  by (simp add: codeqlCmd_def try_catch_def withProgress_def Let_def spawn_events_def
      reject_with_def settle_def report_def console_error_def log_only_def)

lemma sanitizePath_database:
  assumes "isAbsolute sourceRoot"
  shows "sanitizePath (join [sourceRoot, ''sample_'' @ toString now]) w =
           Returns (join [sourceRoot, ''sample_'' @ toString now]) w"
  using join_absolute[OF assms clean_sample[of now]] sanitizePath_cpath by simp

lemma sanitizePath_database_relative:
  assumes "\<not> isAbsolute sourceRoot"
  shows "sanitizePath (join [sourceRoot, ''sample_'' @ toString now]) w = Throws InvalidPath w"
proof -
  have "\<not> isAbsolute (join [sourceRoot, ''sample_'' @ toString now])"
    by (rule join_relative[OF assms]) (simp_all add: isAbsolute_def)
  then show ?thesis by (simp add: sanitizePath_def Let_def)
qed

lemma updateDb_cmd_Cons:
  "updateDb_cmd database language sourceRoot command =
     ''codeql'' # tl (updateDb_cmd database language sourceRoot command)"
  by (simp add: updateDb_cmd_def)

lemma updateDb_after_cleanup:
  assumes "isAbsolute sourceRoot" "cleanupOldDb fuel sourceRoot w = Returns () w1"
  shows "updateDb fuel now ch language sourceRoot command w =
           try_catch
             (await (executeCommand ch
                (updateDb_cmd (join [sourceRoot, ''sample_'' @ toString now]) language sourceRoot command))
                (\<lambda>_. loadDatabase (join [sourceRoot, ''sample_'' @ toString now])))
             (console_error ''Error occurred during database update:'') w1"
proof -
  define db where "db = join [sourceRoot, ''sample_'' @ toString now]"
  have san: "sanitizePath db w1 = Returns db w1"
    unfolding db_def by (rule sanitizePath_database[OF assms(1)])
  show ?thesis
    unfolding updateDb_def db_def[symmetric] by (simp add: await_def assms(2) san)
qed

lemma updateDb_part000_after_cleanup:
  assumes "isAbsolute sourceRoot" "cleanupOldDb fuel sourceRoot w = Returns () w1"
  shows "updateDb_part000 fuel now ch language sourceRoot command w =
           try_catch
             (await (codeqlCmd ch
                (updateDb_cmd_part000 (join [sourceRoot, ''sample_'' @ toString now]) language sourceRoot command))
                (\<lambda>_. loadDatabase_part000 (join [sourceRoot, ''sample_'' @ toString now])))
             (console_error ''Error occurred during database update:'') w1"
proof -
  define db where "db = join [sourceRoot, ''sample_'' @ toString now]"
  have san: "sanitizePath db w1 = Returns db w1"
    unfolding db_def by (rule sanitizePath_database[OF assms(1)])
  show ?thesis
    unfolding updateDb_part000_def db_def[symmetric] by (simp add: await_def assms(2) san)
qed

lemma cleanupOldDb_frame:
  assumes "cleanupOldDb fuel sourceRoot w = Returns () w1"
  shows "cleanup_only w w1"
  using framedD[OF framed_cleanupOldDb, of fuel sourceRoot w w1] assms by simp

text \<open>What a run of updateDb leaves in the world, once the cleanup has returned.\<close>

lemma updateDb_effect:
  assumes "isAbsolute sourceRoot" "cleanupOldDb fuel sourceRoot w = Returns () w1"
  shows "\<exists>w'. updateDb fuel now ch language sourceRoot command w = Returns () w' \<and>
           disk w' = disk w1 \<and>
           launched w' = launched w @
             [ExecFile ''codeql''
               (tl (updateDb_cmd (join [sourceRoot, ''sample_'' @ toString now]) language sourceRoot command))] \<and>
           registered w' = registered w @
             (if ending ch = SpawnFailed then [] else [join [sourceRoot, ''sample_'' @ toString now]])"
proof -
  note fr = cleanupOldDb_frame[OF assms(2)]
  note run = updateDb_after_cleanup[OF assms, of now ch language command]
  show ?thesis
  proof (cases "ending ch")
    case (Exited code)
    show ?thesis
      unfolding run
      by (subst updateDb_cmd_Cons)
         (use fr in \<open>simp add: try_catch_def await_def executeCommand_Exited[OF Exited]
            loadDatabase_def cleanup_only_def Exited\<close>)
  next
    case (Killed sg)
    show ?thesis
      unfolding run
      by (subst updateDb_cmd_Cons)
         (use fr in \<open>simp add: try_catch_def await_def executeCommand_Killed[OF Killed]
            loadDatabase_def cleanup_only_def Killed\<close>)
  next
    case SpawnFailed
    show ?thesis
      unfolding run
      by (subst updateDb_cmd_Cons)
         (use fr in \<open>simp add: try_catch_def await_def executeCommand_SpawnFailed[OF SpawnFailed]
            console_error_def cleanup_only_def SpawnFailed\<close>)
  qed
qed

lemma updateDb_part000_effect:
  assumes "isAbsolute sourceRoot" "cleanupOldDb fuel sourceRoot w = Returns () w1"
  shows "\<exists>w'. final (updateDb_part000 fuel now ch language sourceRoot command w) = Some w' \<and>
           disk w' = disk w1 \<and>
           launched w' = launched w @
             [SpawnShell (updateDb_cmd_part000 (join [sourceRoot, ''sample_'' @ toString now])
                language sourceRoot command)] \<and>
           registered w' = registered w @
             (if ending ch = Exited 0 \<or> ending ch = SpawnFailed
              then [join [sourceRoot, ''sample_'' @ toString now]] else []) \<and>
           (updateDb_part000 fuel now ch language sourceRoot command w = Pending w'
              \<longleftrightarrow> ending ch \<noteq> Exited 0 \<and> ending ch \<noteq> SpawnFailed)"
proof -
  note fr = cleanupOldDb_frame[OF assms(2)]
  define db where "db = join [sourceRoot, ''sample_'' @ toString now]"
  define cmd where "cmd = updateDb_cmd_part000 db language sourceRoot command"
  have run: "updateDb_part000 fuel now ch language sourceRoot command w =
      try_catch (await (codeqlCmd ch cmd) (\<lambda>_. loadDatabase_part000 db))
        (console_error ''Error occurred during database update:'') w1"
    unfolding cmd_def db_def by (rule updateDb_part000_after_cleanup[OF assms])
  have "ending ch = Exited 0 \<or> (\<exists>k sg. ending ch = Exited (Suc k) \<or> ending ch = Killed sg)
          \<or> ending ch = SpawnFailed"
  proof (cases "ending ch")
    case (Exited code)
    then show ?thesis by (cases code) auto
  qed auto
  then consider (ok) "ending ch = Exited 0"
    | (bad) k sg where "ending ch = Exited (Suc k) \<or> ending ch = Killed sg"
    | (nospawn) "ending ch = SpawnFailed"
    by blast
  then show ?thesis
  proof cases
    case ok
    from codeqlCmd_Exited_0[OF ok, of cmd w1] obtain w2 where
      "codeqlCmd ch cmd w1 = Returns () w2" "log_only (w1\<lparr>launched := launched w1 @ [SpawnShell cmd]\<rparr>) w2"
      by blast
    then show ?thesis
      unfolding db_def[symmetric] cmd_def[symmetric] run using fr ok
      by (simp add: try_catch_def await_def loadDatabase_part000_def cleanup_only_def
          log_only_def)
  next
    case bad
    from codeqlCmd_failed[OF bad, of cmd w1] obtain w2 where
      "codeqlCmd ch cmd w1 = Pending w2"
      "log_only (w1\<lparr>launched := launched w1 @ [SpawnShell cmd],
                    uncaught := uncaught w1 @ [ReferenceError ''stderr'']\<rparr>) w2"
      by blast
    then show ?thesis
      unfolding db_def[symmetric] cmd_def[symmetric] run using fr bad
      by (auto simp add: try_catch_def await_def cleanup_only_def log_only_def)
  next
    case nospawn
    from codeqlCmd_SpawnFailed[OF nospawn, of cmd w1] obtain w2 where
      "codeqlCmd ch cmd w1 = Returns () w2" "log_only (w1\<lparr>launched := launched w1 @ [SpawnShell cmd]\<rparr>) w2"
      by blast
    then show ?thesis
      unfolding db_def[symmetric] cmd_def[symmetric] run using fr nospawn
      by (simp add: try_catch_def await_def loadDatabase_part000_def cleanup_only_def
          log_only_def)
  qed
qed

lemma joinWith_space_cmd:
  "updateDb_cmd_part000 database language sourceRoot command =
     joinWith (CHR '' '') (updateDb_cmd database language sourceRoot command)"
  by (simp add: updateDb_cmd_part000_def updateDb_cmd_def)

lemma absolute_not_option: "isAbsolute p \<Longrightarrow> p \<noteq> ''--command'' \<and> p \<noteq> ''--build-mode=none''"
  by (auto simp: isAbsolute_def)

lemma isAbsolute_database:
  "isAbsolute sourceRoot \<Longrightarrow> isAbsolute (join [sourceRoot, ''sample_'' @ toString now])"
  using join_absolute(1)[OF _ clean_sample[of now], of sourceRoot] isAbsolute_cpath by simp

subsection \<open>The cleanup returns on every well-formed disk\<close>

lemma map_of_wf: "map_of es n = Some c \<Longrightarrow> wf_entries es \<Longrightarrow> wf_node c"
  by (induction es) (auto split: if_splits)

lemma map_of_depth: "map_of es n = Some c \<Longrightarrow> depth c \<le> depth_entries es"
  by (induction es) (auto split: if_splits)

lemma walk_wf: "walk d ss = Inr c \<Longrightarrow> wf_node d \<Longrightarrow> wf_node c"
proof (induction d ss rule: walk.induct)
  case (1 d)
  then show ?case by simp
next
  case (2 n ns)
  then show ?case by simp
next
  case (3 a es n ns)
  then show ?case by (auto split: if_splits option.splits dest: map_of_wf)
qed

lemma walk_depth: "walk d ss = Inr c \<Longrightarrow> depth c \<le> depth d"
proof (induction d ss rule: walk.induct)
  case (1 d)
  then show ?case by simp
next
  case (2 n ns)
  then show ?case by simp
next
  case (3 a es n ns)
  then show ?case
    by (auto split: if_splits option.splits dest!: map_of_depth)
qed

lemma cleanupOldDb_listing_fails:
  assumes "sanitizePath sourceRoot w = Returns sourceRoot w"
    and "fs_readdir (disk w) (resolveSegments (cwd w) sourceRoot) = Inl err"
  shows "cleanupOldDb fuel sourceRoot w =
          Returns () (w\<lparr>console := console w @
             [ConsoleError ''Error cleaning up database folder:'' (FsError err)]\<rparr>)"
  using assms
  by (simp add: cleanupOldDb_def try_catch_def await_def readdir_def console_error_def)

lemma cleanupOldDb_sanitize_fails:
  assumes "sanitizePath sourceRoot w = Throws InvalidPath w"
  shows "cleanupOldDb fuel sourceRoot w =
       Returns () (w\<lparr>console := console w @
          [ConsoleError ''Error cleaning up database folder:'' InvalidPath]\<rparr>)"
  by (simp add: cleanupOldDb_def try_catch_def await_def assms console_error_def)

lemma sanitizePath_cases:
  "sanitizePath p w = Returns p w \<or> sanitizePath p w = Throws InvalidPath w"
  by (simp add: sanitizePath_def Let_def)

lemma cleanupOldDb_returns:
  assumes "wf_node (disk w)" "depth (disk w) \<le> fuel"
  shows "\<exists>w1. cleanupOldDb fuel sourceRoot w = Returns () w1"
proof (cases "sanitizePath sourceRoot w = Returns sourceRoot w")
  case False
  then have "sanitizePath sourceRoot w = Throws InvalidPath w"
    using sanitizePath_cases[of sourceRoot w] by simp
  then show ?thesis using cleanupOldDb_sanitize_fails by blast
next
  case True
  define rs where "rs = resolveSegments (cwd w) sourceRoot"
  have can: "sourceRoot = cpath rs" "list_all clean_name rs"
    using sanitized_canonical[OF True] by (simp_all add: rs_def)
  show ?thesis
  proof (cases "fs_readdir (disk w) rs")
    case (Inl err)
    then show ?thesis using cleanupOldDb_listing_fails[OF True, of err fuel] by (simp add: rs_def)
  next
    case (Inr names)
    then obtain es where wk: "walk (disk w) rs = Inr (Dir True es)"
      by (auto simp: fs_readdir_def split: sum.splits node.splits if_splits)
    have "wf_entries es" using walk_wf[OF wk assms(1)] by simp
    moreover have "depth_entries es \<le> fuel" using walk_depth[OF wk] assms(2) by simp
    ultimately show ?thesis using cleanupOldDb_refines[OF can(2) wk] can(1) by simp
  qed
qed

lemma reap_is_dir: "is_dir c \<Longrightarrow> reap c = Some c' \<Longrightarrow> is_dir c'"
  by (cases c) (auto split: if_splits)

lemma sweep_keeps_exactly:
  "filter (\<lambda>e. \<not> stale e) (sweep es) = filter (\<lambda>e. \<not> stale e) es"
proof (induction es)
  case Nil
  show ?case by simp
next
  case (Cons e es)
  obtain n c where e: "e = (n, c)" by (cases e)
  show ?case
  proof (cases "stale (n, c)")
    case True
    then have "filter (\<lambda>e. \<not> stale e) (entry_list n (reap c)) = []"
      by (cases "reap c") (auto simp: stale_def dest: reap_is_dir)
    then show ?thesis using True Cons by (simp add: e)
  next
    case False
    then show ?thesis using Cons by (simp add: e)
  qed
qed

lemma demo_wf: "wf_node (disk demo_world)" "depth (disk demo_world) \<le> 4"
  by (simp_all add: demo_world_def demo_disk_def clean_name_def)

lemma demo_database: "join [''/proj'', ''sample_'' @ toString 1234] = ''/proj/sample_1234''"
  by code_simp

section \<open>The claims\<close>

text \<open>
  C1. Let the source root be an absolute, resolved path of an open directory whose entries
  are \<open>es\<close>, in a well-formed tree. Then \<^verbatim>\<open>cleanupOldDb\<close> returns, nothing outside the
  source root has changed, and the entries of the source root that are no stale database
  (no directory whose name starts with \<^verbatim>\<open>sample_\<close>) are all still there, each as it was,
  in their order: nothing but a stale database is ever deleted. If moreover every
  directory inside the stale databases is open, so that no call of the file system fails,
  then these entries are all that is left: every stale database is gone with all it
  contained, whatever the nesting, and nothing is logged. Since \<^verbatim>\<open>rmdir\<close> removes empty
  directories only, the contents of a removed directory were removed before it.
\<close>

theorem cleanupOldDb_removes_exactly_the_stale_directories:
  assumes "sanitizePath sourceRoot w = Returns sourceRoot w"
    and "walk (disk w) (resolveSegments (cwd w) sourceRoot) = Inr (Dir True es)"
    and "wf_entries es"
    and "depth_entries es \<le> fuel"
  shows "\<exists>w' es'. cleanupOldDb fuel sourceRoot w = Returns () w' \<and>
           disk w' = put (disk w) (resolveSegments (cwd w) sourceRoot) (Some (Dir True es')) \<and>
           walk (disk w') (resolveSegments (cwd w) sourceRoot) = Inr (Dir True es') \<and>
           filter (\<lambda>e. \<not> stale e) es' = filter (\<lambda>e. \<not> stale e) es \<and>
           ((\<forall>e\<in>set es. stale e \<longrightarrow> accessible (snd e)) \<longrightarrow>
              es' = filter (\<lambda>e. \<not> stale e) es \<and> console w' = console w)"
proof -
  define rs where "rs = resolveSegments (cwd w) sourceRoot"
  have can: "sourceRoot = cpath rs" "list_all clean_name rs"
    using sanitized_canonical[OF assms(1)] by (simp_all add: rs_def)
  have wk: "walk (disk w) rs = Inr (Dir True es)" using assms(2) by (simp add: rs_def)
  define w' where "w' = w\<lparr>disk := put (disk w) rs (Some (Dir True (sweep es))),
                         console := console w @ map subfolder_error (sweep_errors es),
                         progress := progress w @
                           (''Cleaning up old databases'', Units 0) #
                           cleanup_reports (length es) 0 (length es)\<rparr>"
  have run: "cleanupOldDb fuel sourceRoot w = Returns () w'"
    unfolding w'_def can(1) by (rule cleanupOldDb_refines[OF can(2) wk assms(3,4)])
  have d: "disk w' = put (disk w) rs (Some (Dir True (sweep es)))" by (simp add: w'_def)
  have k: "walk (disk w') rs = Inr (Dir True (sweep es))"
    unfolding d by (rule walk_put_same[OF wk])
  have a: "sweep es = filter (\<lambda>e. \<not> stale e) es \<and> console w' = console w"
    if "\<forall>e\<in>set es. stale e \<longrightarrow> accessible (snd e)"
    using sweep_accessible[OF that] by (simp add: w'_def)
  show ?thesis
    unfolding rs_def[symmetric]
    using run d k sweep_keeps_exactly[of es] a by blast
qed

theorem cleanupOldDb_removes_exactly_the_stale_directories_witness:
  "\<exists>w'. cleanupOldDb 2 ''/proj'' demo_world = Returns () w' \<and>
     walk (disk w') [''proj''] =
       Inr (Dir True [(''other'', Dir True [(''k'', File)]), (''sample_x'', File)]) \<and>
     walk (disk w') [''locked''] = walk (disk demo_world) [''locked''] \<and>
     console w' = []"
proof -
  define es where "es =
          [(''sample_1000'', Dir True [(''db.bin'', File), (''sub'', Dir True [(''x'', File)])]),
           (''other'', Dir True [(''k'', File)]),
           (''sample_x'', File)]"
  have rs: "resolveSegments (cwd demo_world) ''/proj'' = [''proj'']" by code_simp
  have h1: "sanitizePath ''/proj'' demo_world = Returns ''/proj'' demo_world" by code_simp
  have h2: "walk (disk demo_world) (resolveSegments (cwd demo_world) ''/proj'') = Inr (Dir True es)"
    unfolding rs by (simp add: demo_world_def demo_disk_def es_def)
  have h3: "wf_entries es" by (simp add: es_def clean_name_def)
  have h4: "\<forall>e\<in>set es. stale e \<longrightarrow> accessible (snd e)"
    by (simp add: es_def stale_def startsWith_def)
  have h5: "depth_entries es \<le> 2" by (simp add: es_def)
  have f: "filter (\<lambda>e. \<not> stale e) es = [(''other'', Dir True [(''k'', File)]), (''sample_x'', File)]"
    by (simp add: es_def stale_def startsWith_def)
  from cleanupOldDb_removes_exactly_the_stale_directories[OF h1 h2 h3 h5] h4
  obtain w' where w': "cleanupOldDb 2 ''/proj'' demo_world = Returns () w'"
    "disk w' = put (disk demo_world) [''proj''] (Some (Dir True (filter (\<lambda>e. \<not> stale e) es)))"
    "console w' = console demo_world"
    unfolding rs by blast
  have "walk (disk w') [''proj''] =
       Inr (Dir True [(''other'', Dir True [(''k'', File)]), (''sample_x'', File)])"
    "walk (disk w') [''locked''] = walk (disk demo_world) [''locked'']"
    unfolding w'(2) f by (simp_all add: demo_world_def demo_disk_def)
  then show ?thesis using w'(1,3) by (simp add: demo_world_def)
qed

text \<open>
  C2. \<^verbatim>\<open>sanitizePath\<close> returns its input unchanged exactly when the input is absolute and
  equal to its own resolution against the working directory; an input that is relative,
  or that differs from its resolved form, makes it throw the invalid-path error. What it
  returns is the input itself, and it is absolute.
\<close>

theorem sanitizePath_accepts_exactly_resolved_absolute_paths:
  "(sanitizePath p w = Returns p w \<longleftrightarrow> isAbsolute p \<and> p = resolve (cwd w) p) \<and>
   (\<not> isAbsolute p \<longrightarrow> sanitizePath p w = Throws InvalidPath w) \<and>
   (p \<noteq> resolve (cwd w) p \<longrightarrow> sanitizePath p w = Throws InvalidPath w) \<and>
   (\<forall>q w'. sanitizePath p w = Returns q w' \<longrightarrow> q = p \<and> w' = w \<and> isAbsolute q)"
  by (auto simp: sanitizePath_def Let_def)

theorem sanitizePath_accepts_exactly_resolved_absolute_paths_witness:
  "isAbsolute ''/abs/path'' \<and> ''/abs/path'' = resolve (cwd demo_world) ''/abs/path'' \<and>
   sanitizePath ''/abs/path'' demo_world = Returns ''/abs/path'' demo_world \<and>
   \<not> isAbsolute ''relative/path'' \<and>
   sanitizePath ''relative/path'' demo_world = Throws InvalidPath demo_world \<and>
   isAbsolute ''/abs/../path'' \<and> ''/abs/../path'' \<noteq> resolve (cwd demo_world) ''/abs/../path'' \<and>
   sanitizePath ''/abs/../path'' demo_world = Throws InvalidPath demo_world"
proof -
  have a: "isAbsolute ''/abs/path''" "\<not> isAbsolute ''relative/path''" "isAbsolute ''/abs/../path''"
    by (simp_all add: isAbsolute_def)
  have r: "''/abs/path'' = resolve (cwd demo_world) ''/abs/path''"
    by code_simp
  have n: "''/abs/../path'' \<noteq> resolve (cwd demo_world) ''/abs/../path''"
    by code_simp
  show ?thesis
    using a r n
      sanitizePath_accepts_exactly_resolved_absolute_paths[of "''/abs/path''" demo_world]
      sanitizePath_accepts_exactly_resolved_absolute_paths[of "''relative/path''" demo_world]
      sanitizePath_accepts_exactly_resolved_absolute_paths[of "''/abs/../path''" demo_world]
    by blast
qed

text \<open>
  C3 describes what the code attempts and misses. The external tool exits with code 1.
  In src/extension.js the \<^verbatim>\<open>exit\<close> listener has resolved the promise before the callback
  rejects it: \<^verbatim>\<open>executeCommand\<close> returns, the database is registered and nothing is
  logged. In src/unnamed/part_000 the \<^verbatim>\<open>exit\<close> listener throws before it rejects: the
  promise is never settled, \<^verbatim>\<open>updateDb\<close> never returns, and no database is registered.
\<close>

theorem a_failed_external_command_is_not_reported_as_a_failure:
  "executeCommand (demo_child 1) [''codeql'', ''database'', ''create''] demo_world =
     Returns (Code (Some 1))
       (demo_world\<lparr>progress := [(''Creating CodeQL database'', Units 0),
                                 (''Creating CodeQL database'', Units 100)],
                    launched := [ExecFile ''codeql'' [''database'', ''create'']]\<rparr>) \<and>
   map_option registered
     (final (updateDb 2 1234 (demo_child 1) ''java'' ''/proj'' None demo_world)) =
     Some [''/proj/sample_1234''] \<and>
   map_option console
     (final (updateDb 2 1234 (demo_child 1) ''java'' ''/proj'' None demo_world)) = Some [] \<and>
   codeqlCmd (demo_child 1) ''codeql database create'' demo_world =
     Pending
       (demo_world\<lparr>console := [ConsoleLog ''exit 1 null''],
                    progress := [(''Creating CodeQL database'', Units 0)],
                    launched := [SpawnShell ''codeql database create''],
                    uncaught := [ReferenceError ''stderr'']\<rparr>) \<and>
   map_option registered
     (final (updateDb_part000 2 1234 (demo_child 1) ''java'' ''/proj'' None demo_world)) =
     Some [] \<and>
   map_option uncaught
     (final (updateDb_part000 2 1234 (demo_child 1) ''java'' ''/proj'' None demo_world)) =
     Some [ReferenceError ''stderr'']"
  by code_simp

text \<open>
  C4. For every language and every absolute source root, on a well-formed disk and with a
  recursion bound that covers its depth: \<^verbatim>\<open>updateDb\<close> without a build command launches
  \<^verbatim>\<open>codeql database create\<close> with the database path, \<^verbatim>\<open>--language=\<close> and the language,
  \<^verbatim>\<open>--source-root\<close> and the source root, \<^verbatim>\<open>--build-mode=none\<close> and \<^verbatim>\<open>--overwrite\<close>, and
  without \<^verbatim>\<open>--command\<close>; with a build command that is not empty, such as \<^verbatim>\<open>make\<close>, the
  command has \<^verbatim>\<open>--command\<close> followed by the build command instead of
  \<^verbatim>\<open>--build-mode=none\<close>. In src/extension.js these are the arguments of the process; in
  src/unnamed/part_000 they are the fields of the command line, put together with
  spaces in this order.
\<close>

theorem updateDb_constructs_the_command_of_its_mode:
  assumes "isAbsolute sourceRoot" "wf_node (disk w)" "depth (disk w) \<le> fuel" "c \<noteq> []"
  shows
    "(\<exists>w'. updateDb fuel now ch language sourceRoot None w = Returns () w' \<and>
        launched w' = launched w @
          [ExecFile ''codeql''
            [''database'', ''create'', join [sourceRoot, ''sample_'' @ toString now],
             ''--language='' @ language, ''--source-root'', sourceRoot,
             ''--build-mode=none'', ''--overwrite'']]) \<and>
     (\<exists>w'. updateDb fuel now ch language sourceRoot (Some c) w = Returns () w' \<and>
        launched w' = launched w @
          [ExecFile ''codeql''
            [''database'', ''create'', join [sourceRoot, ''sample_'' @ toString now],
             ''--language='' @ language, ''--source-root'', sourceRoot,
             ''--command'', c, ''--overwrite'']]) \<and>
     (\<exists>w'. final (updateDb_part000 fuel now ch language sourceRoot None w) = Some w' \<and>
        launched w' = launched w @
          [SpawnShell (joinWith (CHR '' '')
            [''codeql'', ''database'', ''create'', join [sourceRoot, ''sample_'' @ toString now],
             ''--language='' @ language, ''--source-root'', sourceRoot,
             ''--build-mode=none'', ''--overwrite''])]) \<and>
     (\<exists>w'. final (updateDb_part000 fuel now ch language sourceRoot (Some c) w) = Some w' \<and>
        launched w' = launched w @
          [SpawnShell (joinWith (CHR '' '')
            [''codeql'', ''database'', ''create'', join [sourceRoot, ''sample_'' @ toString now],
             ''--language='' @ language, ''--source-root'', sourceRoot,
             ''--command'', c, ''--overwrite''])]) \<and>
     ''--build-mode=none'' \<in> set (updateDb_cmd (join [sourceRoot, ''sample_'' @ toString now])
                                     language sourceRoot None) \<and>
     ''--command'' \<notin> set (updateDb_cmd (join [sourceRoot, ''sample_'' @ toString now])
                               language sourceRoot None) \<and>
     ''--command'' \<in> set (updateDb_cmd (join [sourceRoot, ''sample_'' @ toString now])
                              language sourceRoot (Some ''make'')) \<and>
     ''--build-mode=none'' \<notin> set (updateDb_cmd (join [sourceRoot, ''sample_'' @ toString now])
                                      language sourceRoot (Some ''make''))"
proof -
  obtain w1 where cl: "cleanupOldDb fuel sourceRoot w = Returns () w1"
    using cleanupOldDb_returns[OF assms(2,3)] by blast
  define db where "db = join [sourceRoot, ''sample_'' @ toString now]"
  have adb: "isAbsolute db" unfolding db_def by (rule isAbsolute_database[OF assms(1)])
  note n1 = absolute_not_option[OF adb] and n2 = absolute_not_option[OF assms(1)]
  have e1: "\<exists>w'. updateDb fuel now ch language sourceRoot cm w = Returns () w' \<and>
        launched w' = launched w @ [ExecFile ''codeql'' (tl (updateDb_cmd db language sourceRoot cm))]" for cm
    unfolding db_def using updateDb_effect[OF assms(1) cl, of now ch language cm] by blast
  have e2: "\<exists>w'. final (updateDb_part000 fuel now ch language sourceRoot cm w) = Some w' \<and>
        launched w' = launched w @ [SpawnShell (joinWith (CHR '' '') (updateDb_cmd db language sourceRoot cm))]" for cm
    unfolding db_def joinWith_space_cmd[symmetric]
    using updateDb_part000_effect[OF assms(1) cl, of now ch language cm] by blast
  have c0: "updateDb_cmd db language sourceRoot None =
      [''codeql'', ''database'', ''create'', db, ''--language='' @ language, ''--source-root'',
       sourceRoot, ''--build-mode=none'', ''--overwrite'']"
    by (simp add: updateDb_cmd_def)
  have c1: "updateDb_cmd db language sourceRoot (Some c) =
      [''codeql'', ''database'', ''create'', db, ''--language='' @ language, ''--source-root'',
       sourceRoot, ''--command'', c, ''--overwrite'']"
    using assms(4) by (simp add: updateDb_cmd_def)
  have c2: "updateDb_cmd db language sourceRoot (Some ''make'') =
      [''codeql'', ''database'', ''create'', db, ''--language='' @ language, ''--source-root'',
       sourceRoot, ''--command'', ''make'', ''--overwrite'']"
    by (simp add: updateDb_cmd_def)
  have m: "''--build-mode=none'' \<in> set (updateDb_cmd db language sourceRoot None)"
    "''--command'' \<notin> set (updateDb_cmd db language sourceRoot None)"
    "''--command'' \<in> set (updateDb_cmd db language sourceRoot (Some ''make''))"
    "''--build-mode=none'' \<notin> set (updateDb_cmd db language sourceRoot (Some ''make''))"
    unfolding c0 c2 using n1 n2 by auto
  show ?thesis
    unfolding db_def[symmetric]
    using e1[of None] e1[of "Some c"] e2[of None] e2[of "Some c"] m
    unfolding c0 c1 by simp
qed

theorem updateDb_constructs_the_command_of_its_mode_witness:
  "(\<exists>w'. updateDb 4 1234 (demo_child 0) ''java'' ''/proj'' None demo_world = Returns () w' \<and>
        launched w' =
          [ExecFile ''codeql''
            [''database'', ''create'', ''/proj/sample_1234'', ''--language=java'',
             ''--source-root'', ''/proj'', ''--build-mode=none'', ''--overwrite'']]) \<and>
   (\<exists>w'. updateDb 4 1234 (demo_child 0) ''java'' ''/proj'' (Some ''make'') demo_world = Returns () w' \<and>
        launched w' =
          [ExecFile ''codeql''
            [''database'', ''create'', ''/proj/sample_1234'', ''--language=java'',
             ''--source-root'', ''/proj'', ''--command'', ''make'', ''--overwrite'']]) \<and>
   (\<exists>w'. final (updateDb_part000 4 1234 (demo_child 0) ''java'' ''/proj'' None demo_world) = Some w' \<and>
        launched w' =
          [SpawnShell ''codeql database create /proj/sample_1234 --language=java --source-root /proj --build-mode=none --overwrite'']) \<and>
   (\<exists>w'. final (updateDb_part000 4 1234 (demo_child 0) ''java'' ''/proj'' (Some ''make'') demo_world) = Some w' \<and>
        launched w' =
          [SpawnShell ''codeql database create /proj/sample_1234 --language=java --source-root /proj --command make --overwrite''])"
proof -
  have a: "isAbsolute ''/proj''" by (simp add: isAbsolute_def)
  have c: "''make'' \<noteq> []" by simp
  show ?thesis
    using updateDb_constructs_the_command_of_its_mode
            [OF a demo_wf c, of 1234 "demo_child 0" "''java''"]
    unfolding demo_database by (simp add: demo_world_def)
qed

text \<open>
  C5 holds in src/extension.js and fails in src/unnamed/part_000. With the build command
  \<^verbatim>\<open>make all\<close>, \<^verbatim>\<open>updateDb\<close> of part_000 hands one command line to a shell, and the tool
  receives the build command as the two arguments \<^verbatim>\<open>make\<close> and \<^verbatim>\<open>all\<close>; \<^verbatim>\<open>updateDb\<close> of
  extension.js uses no shell and delivers it as one argument.
\<close>

theorem part_000_hands_the_command_line_to_a_shell:
  "map_option (map uses_shell \<circ> launched)
     (final (updateDb_part000 2 1234 (demo_child 0) ''java'' ''/proj'' (Some ''make all'') demo_world)) =
     Some [True] \<and>
   map_option (map delivered \<circ> launched)
     (final (updateDb_part000 2 1234 (demo_child 0) ''java'' ''/proj'' (Some ''make all'') demo_world)) =
     Some [[''codeql'', ''database'', ''create'', ''/proj/sample_1234'', ''--language=java'',
            ''--source-root'', ''/proj'', ''--command'', ''make'', ''all'', ''--overwrite'']] \<and>
   map_option (map uses_shell \<circ> launched)
     (final (updateDb 2 1234 (demo_child 0) ''java'' ''/proj'' (Some ''make all'') demo_world)) =
     Some [False] \<and>
   map_option (map delivered \<circ> launched)
     (final (updateDb 2 1234 (demo_child 0) ''java'' ''/proj'' (Some ''make all'') demo_world)) =
     Some [[''codeql'', ''database'', ''create'', ''/proj/sample_1234'', ''--language=java'',
            ''--source-root'', ''/proj'', ''--command'', ''make all'', ''--overwrite'']]"
  by code_simp

text \<open>
  C6, as the specification states it, fails: the source root \<^verbatim>\<open>/proj/\<close> is absolute but
  not resolved, so sanitizing it at the start of the cleanup fails, and yet the external
  tool is launched and the database is registered.
\<close>

theorem a_root_that_is_not_resolved_does_not_abort_the_build:
  "sanitizePath ''/proj/'' demo_world = Throws InvalidPath demo_world \<and>
   map_option launched (final (updateDb 2 1234 (demo_child 0) ''java'' ''/proj/'' None demo_world)) =
     Some [ExecFile ''codeql''
            [''database'', ''create'', ''/proj/sample_1234'', ''--language=java'',
             ''--source-root'', ''/proj/'', ''--build-mode=none'', ''--overwrite'']] \<and>
   map_option registered (final (updateDb 2 1234 (demo_child 0) ''java'' ''/proj/'' None demo_world)) =
     Some [''/proj/sample_1234''] \<and>
   map_option launched (final (updateDb_part000 2 1234 (demo_child 0) ''java'' ''/proj/'' None demo_world)) =
     Some [SpawnShell ''codeql database create /proj/sample_1234 --language=java --source-root /proj/ --build-mode=none --overwrite''] \<and>
   map_option registered (final (updateDb_part000 2 1234 (demo_child 0) ''java'' ''/proj/'' None demo_world)) =
     Some [''/proj/sample_1234'']"
  by code_simp

text \<open>
  C6, amended. When sanitizing the source root at the start of the cleanup fails,
  \<^verbatim>\<open>cleanupOldDb\<close> catches the error, logs it and returns, and nothing is deleted. If the
  source root is relative, sanitizing the path of the new database fails as well, and this
  error leaves \<^verbatim>\<open>updateDb\<close>: no external command is launched and no database is
  registered. If the source root is absolute, the build goes on without the cleanup and
  the external tool is launched.
\<close>

theorem a_sanitize_failure_in_the_cleanup_is_caught:
  assumes "sanitizePath sourceRoot w = Throws InvalidPath w"
  shows
    "cleanupOldDb fuel sourceRoot w =
       Returns () (w\<lparr>console := console w @
          [ConsoleError ''Error cleaning up database folder:'' InvalidPath]\<rparr>) \<and>
     (\<not> isAbsolute sourceRoot \<longrightarrow>
        updateDb fuel now ch language sourceRoot command w =
          Throws InvalidPath (w\<lparr>console := console w @
             [ConsoleError ''Error cleaning up database folder:'' InvalidPath]\<rparr>) \<and>
        updateDb_part000 fuel now ch language sourceRoot command w =
          Throws InvalidPath (w\<lparr>console := console w @
             [ConsoleError ''Error cleaning up database folder:'' InvalidPath]\<rparr>)) \<and>
     (isAbsolute sourceRoot \<longrightarrow>
        (\<exists>w'. updateDb fuel now ch language sourceRoot command w = Returns () w' \<and>
              disk w' = disk w \<and>
              launched w' = launched w @
                [ExecFile ''codeql''
                  (tl (updateDb_cmd (join [sourceRoot, ''sample_'' @ toString now])
                         language sourceRoot command))]) \<and>
        (\<exists>w'. final (updateDb_part000 fuel now ch language sourceRoot command w) = Some w' \<and>
              disk w' = disk w \<and>
              launched w' = launched w @
                [SpawnShell (updateDb_cmd_part000 (join [sourceRoot, ''sample_'' @ toString now])
                               language sourceRoot command)]))"
proof -
  define w1 where "w1 = w\<lparr>console := console w @
          [ConsoleError ''Error cleaning up database folder:'' InvalidPath]\<rparr>"
  have cl: "cleanupOldDb fuel sourceRoot w = Returns () w1"
    unfolding w1_def by (rule cleanupOldDb_sanitize_fails[OF assms])
  have rel: "updateDb fuel now ch language sourceRoot command w = Throws InvalidPath w1"
    "updateDb_part000 fuel now ch language sourceRoot command w = Throws InvalidPath w1"
    if "\<not> isAbsolute sourceRoot"
  proof -
    define db where "db = join [sourceRoot, ''sample_'' @ toString now]"
    have s: "sanitizePath db w1 = Throws InvalidPath w1"
      unfolding db_def by (rule sanitizePath_database_relative[OF that])
    show "updateDb fuel now ch language sourceRoot command w = Throws InvalidPath w1"
      unfolding updateDb_def db_def[symmetric] by (simp add: await_def cl s)
    show "updateDb_part000 fuel now ch language sourceRoot command w = Throws InvalidPath w1"
      unfolding updateDb_part000_def db_def[symmetric] by (simp add: await_def cl s)
  qed
  have d: "disk w1 = disk w" by (simp add: w1_def)
  have ab1: "\<exists>w'. updateDb fuel now ch language sourceRoot command w = Returns () w' \<and>
              disk w' = disk w \<and>
              launched w' = launched w @
                [ExecFile ''codeql''
                  (tl (updateDb_cmd (join [sourceRoot, ''sample_'' @ toString now])
                         language sourceRoot command))]"
    if "isAbsolute sourceRoot"
    using updateDb_effect[OF that cl, of now ch language command] unfolding d by blast
  have ab2: "\<exists>w'. final (updateDb_part000 fuel now ch language sourceRoot command w) = Some w' \<and>
              disk w' = disk w \<and>
              launched w' = launched w @
                [SpawnShell (updateDb_cmd_part000 (join [sourceRoot, ''sample_'' @ toString now])
                               language sourceRoot command)]"
    if "isAbsolute sourceRoot"
    using updateDb_part000_effect[OF that cl, of now ch language command] unfolding d by blast
  show ?thesis
    unfolding w1_def[symmetric] using cl rel ab1 ab2 by blast
qed

theorem a_sanitize_failure_in_the_cleanup_is_caught_witness:
  "sanitizePath ''relative/path'' demo_world = Throws InvalidPath demo_world \<and>
   \<not> isAbsolute ''relative/path'' \<and>
   cleanupOldDb 2 ''relative/path'' demo_world =
     Returns () (demo_world\<lparr>console :=
        [ConsoleError ''Error cleaning up database folder:'' InvalidPath]\<rparr>) \<and>
   updateDb 2 1234 (demo_child 0) ''java'' ''relative/path'' None demo_world =
     Throws InvalidPath (demo_world\<lparr>console :=
        [ConsoleError ''Error cleaning up database folder:'' InvalidPath]\<rparr>) \<and>
   sanitizePath ''/proj/'' demo_world = Throws InvalidPath demo_world \<and>
   isAbsolute ''/proj/'' \<and>
   (\<exists>w'. updateDb 2 1234 (demo_child 0) ''java'' ''/proj/'' None demo_world = Returns () w' \<and>
      disk w' = disk demo_world \<and> length (launched w') = 1)"
proof -
  have r: "sanitizePath ''relative/path'' demo_world = Throws InvalidPath demo_world" by code_simp
  have nr: "\<not> isAbsolute ''relative/path''" by (simp add: isAbsolute_def)
  have p: "sanitizePath ''/proj/'' demo_world = Throws InvalidPath demo_world" by code_simp
  have ap: "isAbsolute ''/proj/''" by (simp add: isAbsolute_def)
  show ?thesis
    using r nr p ap
      a_sanitize_failure_in_the_cleanup_is_caught[OF r, of 2 1234 "demo_child 0" "''java''" None]
      a_sanitize_failure_in_the_cleanup_is_caught[OF p, of 2 1234 "demo_child 0" "''java''" None]
    by (auto simp: demo_world_def)
qed

text \<open>
  C7. Let the source root be an absolute, resolved path. If listing it fails,
  \<^verbatim>\<open>cleanupOldDb\<close> logs the error and returns. If it is an open directory in a well-formed
  tree, \<^verbatim>\<open>cleanupOldDb\<close> returns whatever directories are closed inside the stale
  databases: every error met in a stale database is logged, a stale database in which
  nothing is closed is removed even when another one could not be removed, and the other
  entries stay. \<^verbatim>\<open>cleanupOldDb\<close> never throws. Whenever it has returned, \<^verbatim>\<open>updateDb\<close> goes
  on and launches the external tool, in both files.
\<close>

theorem cleanup_errors_are_logged_and_the_build_goes_on:
  assumes san: "sanitizePath sourceRoot w = Returns sourceRoot w"
  shows
    "(\<forall>err. fs_readdir (disk w) (resolveSegments (cwd w) sourceRoot) = Inl err \<longrightarrow>
        cleanupOldDb fuel sourceRoot w =
          Returns () (w\<lparr>console := console w @
             [ConsoleError ''Error cleaning up database folder:'' (FsError err)]\<rparr>)) \<and>
     (\<forall>es. walk (disk w) (resolveSegments (cwd w) sourceRoot) = Inr (Dir True es) \<and>
           wf_entries es \<and> depth_entries es \<le> fuel \<longrightarrow>
        (\<exists>w'. cleanupOldDb fuel sourceRoot w = Returns () w' \<and>
              walk (disk w') (resolveSegments (cwd w) sourceRoot) = Inr (Dir True (sweep es)) \<and>
              console w' = console w @ map subfolder_error (sweep_errors es)) \<and>
        (\<forall>e\<in>set es. stale e \<and> accessible (snd e) \<longrightarrow> fst e \<notin> fst ` set (sweep es)) \<and>
        (\<forall>e\<in>set es. \<not> stale e \<longrightarrow> e \<in> set (sweep es))) \<and>
     (\<forall>err w'. cleanupOldDb fuel sourceRoot w \<noteq> Throws err w') \<and>
     (\<forall>w1. cleanupOldDb fuel sourceRoot w = Returns () w1 \<longrightarrow>
        (\<exists>w'. updateDb fuel now ch language sourceRoot command w = Returns () w' \<and>
              launched w' = launched w @
                [ExecFile ''codeql''
                  (tl (updateDb_cmd (join [sourceRoot, ''sample_'' @ toString now])
                         language sourceRoot command))]) \<and>
        (\<exists>w'. final (updateDb_part000 fuel now ch language sourceRoot command w) = Some w' \<and>
              launched w' = launched w @
                [SpawnShell (updateDb_cmd_part000 (join [sourceRoot, ''sample_'' @ toString now])
                               language sourceRoot command)]))"
proof -
  define rs where "rs = resolveSegments (cwd w) sourceRoot"
  have can: "sourceRoot = cpath rs" "list_all clean_name rs"
    using sanitized_canonical[OF san] by (simp_all add: rs_def)
  have abs: "isAbsolute sourceRoot" using can(1) by simp
  have a: "cleanupOldDb fuel sourceRoot w =
          Returns () (w\<lparr>console := console w @
             [ConsoleError ''Error cleaning up database folder:'' (FsError err)]\<rparr>)"
    if "fs_readdir (disk w) rs = Inl err" for err
    using that
    by (simp add: cleanupOldDb_def try_catch_def await_def san readdir_def rs_def console_error_def)
  have b: "\<exists>w'. cleanupOldDb fuel sourceRoot w = Returns () w' \<and>
              walk (disk w') rs = Inr (Dir True (sweep es)) \<and>
              console w' = console w @ map subfolder_error (sweep_errors es)"
    if "walk (disk w) rs = Inr (Dir True es)" "wf_entries es" "depth_entries es \<le> fuel" for es
    using cleanupOldDb_refines[OF can(2) that] walk_put_same[OF that(1)] can(1) by simp
  have c: "fst e \<notin> fst ` set (sweep es)"
    if "wf_entries es" "e \<in> set es" "stale e \<and> accessible (snd e)" for e es
    using sweep_removes[OF that(1,2)] that(3) by simp
  have d: "\<exists>w'. updateDb fuel now ch language sourceRoot command w = Returns () w' \<and>
              launched w' = launched w @
                [ExecFile ''codeql''
                  (tl (updateDb_cmd (join [sourceRoot, ''sample_'' @ toString now])
                         language sourceRoot command))]"
    if "cleanupOldDb fuel sourceRoot w = Returns () w1" for w1
    using updateDb_effect[OF abs that, of now ch language command] by blast
  have e: "\<exists>w'. final (updateDb_part000 fuel now ch language sourceRoot command w) = Some w' \<and>
              launched w' = launched w @
                [SpawnShell (updateDb_cmd_part000 (join [sourceRoot, ''sample_'' @ toString now])
                               language sourceRoot command)]"
    if "cleanupOldDb fuel sourceRoot w = Returns () w1" for w1
    using updateDb_part000_effect[OF abs that, of now ch language command] by blast
  show ?thesis
    unfolding rs_def[symmetric]
    using a b c d e sweep_keeps cleanupOldDb_no_throw by blast
qed

theorem cleanup_errors_are_logged_and_the_build_goes_on_witness:
  "cleanupOldDb 3 ''/missing'' demo_world =
     Returns () (demo_world\<lparr>console :=
        [ConsoleError ''Error cleaning up database folder:'' (FsError ENOENT)]\<rparr>) \<and>
   (\<exists>w'. updateDb 3 1234 (demo_child 0) ''java'' ''/missing'' None demo_world = Returns () w' \<and>
      launched w' = [ExecFile ''codeql''
         [''database'', ''create'', ''/missing/sample_1234'', ''--language=java'',
          ''--source-root'', ''/missing'', ''--build-mode=none'', ''--overwrite'']]) \<and>
   (\<exists>w'. cleanupOldDb 3 ''/locked'' demo_world = Returns () w' \<and>
      walk (disk w') [''locked''] =
        Inr (Dir True [(''sample_1'', Dir True [(''closed'', Dir False [(''f'', File)])]),
                       (''keep'', Dir True [])]) \<and>
      console w' = [subfolder_error EACCES, subfolder_error ENOTEMPTY]) \<and>
   (\<exists>w'. updateDb 3 1234 (demo_child 0) ''java'' ''/locked'' None demo_world = Returns () w' \<and>
      launched w' = [ExecFile ''codeql''
         [''database'', ''create'', ''/locked/sample_1234'', ''--language=java'',
          ''--source-root'', ''/locked'', ''--build-mode=none'', ''--overwrite'']])"
proof -
  define es where "es =
          [(''sample_1'', Dir True [(''closed'', Dir False [(''f'', File)]), (''g'', File)]),
           (''sample_2'', Dir True [(''db.bin'', File)]),
           (''keep'', Dir True [])]"
  have m1: "sanitizePath ''/missing'' demo_world = Returns ''/missing'' demo_world" by code_simp
  have m2: "fs_readdir (disk demo_world) (resolveSegments (cwd demo_world) ''/missing'') = Inl ENOENT"
    by code_simp
  note M = cleanup_errors_are_logged_and_the_build_goes_on[OF m1, of 3 1234 "demo_child 0" "''java''" None]
  have M1: "cleanupOldDb 3 ''/missing'' demo_world =
     Returns () (demo_world\<lparr>console := console demo_world @
        [ConsoleError ''Error cleaning up database folder:'' (FsError ENOENT)]\<rparr>)"
    using M m2 by blast
  have dbm: "join [''/missing'', ''sample_'' @ toString 1234] = ''/missing/sample_1234''" by code_simp
  have M2: "\<exists>w'. updateDb 3 1234 (demo_child 0) ''java'' ''/missing'' None demo_world = Returns () w' \<and>
      launched w' = launched demo_world @ [ExecFile ''codeql''
         (tl (updateDb_cmd (join [''/missing'', ''sample_'' @ toString 1234]) ''java'' ''/missing'' None))]"
    using M M1 by blast
  have l1: "sanitizePath ''/locked'' demo_world = Returns ''/locked'' demo_world" by code_simp
  have rs: "resolveSegments (cwd demo_world) ''/locked'' = [''locked'']" by code_simp
  have l2: "walk (disk demo_world) (resolveSegments (cwd demo_world) ''/locked'') = Inr (Dir True es)"
    unfolding rs by (simp add: demo_world_def demo_disk_def es_def)
  have l3: "wf_entries es" by (simp add: es_def clean_name_def)
  have l4: "depth_entries es \<le> 3" by (simp add: es_def)
  have sw: "sweep es = [(''sample_1'', Dir True [(''closed'', Dir False [(''f'', File)])]),
                       (''keep'', Dir True [])]"
    "sweep_errors es = [EACCES, ENOTEMPTY]"
    by (simp_all add: es_def stale_def startsWith_def)
  note L = cleanup_errors_are_logged_and_the_build_goes_on[OF l1, of 3 1234 "demo_child 0" "''java''" None]
  have L1: "\<exists>w'. cleanupOldDb 3 ''/locked'' demo_world = Returns () w' \<and>
              walk (disk w') (resolveSegments (cwd demo_world) ''/locked'') = Inr (Dir True (sweep es)) \<and>
              console w' = console demo_world @ map subfolder_error (sweep_errors es)"
    using L l2 l3 l4 by blast
  have dbl: "join [''/locked'', ''sample_'' @ toString 1234] = ''/locked/sample_1234''" by code_simp
  have L2: "\<exists>w'. updateDb 3 1234 (demo_child 0) ''java'' ''/locked'' None demo_world = Returns () w' \<and>
      launched w' = launched demo_world @ [ExecFile ''codeql''
         (tl (updateDb_cmd (join [''/locked'', ''sample_'' @ toString 1234]) ''java'' ''/locked'' None))]"
    using L L1 by blast
  show ?thesis
    using M1 M2 L1 L2 unfolding dbm dbl rs sw
    by (simp add: demo_world_def updateDb_cmd_def)
qed

text \<open>
  C8 holds for the language prompt and fails for the build command prompt. When the user
  picks a language and dismisses the input box, \<^verbatim>\<open>buildCodeqlDb\<close> calls \<^verbatim>\<open>updateDb\<close> with an
  undefined command: the stale database is deleted, the external tool is launched with
  \<^verbatim>\<open>--build-mode=none\<close>, and the database is registered. When the language prompt is
  dismissed, nothing happens.
\<close>

theorem dismissing_the_build_command_prompt_starts_a_build:
  "map_option launched
     (final (buildCodeqlDb 2 (demo_host (Some Java) None) (Some ''/proj'') True demo_world)) =
     Some [ExecFile ''codeql''
            [''database'', ''create'', ''/proj/sample_1234'', ''--language=java'',
             ''--source-root'', ''/proj'', ''--build-mode=none'', ''--overwrite'']] \<and>
   map_option registered
     (final (buildCodeqlDb 2 (demo_host (Some Java) None) (Some ''/proj'') True demo_world)) =
     Some [''/proj/sample_1234''] \<and>
   map_option (\<lambda>w. walk (disk w) [''proj'', ''sample_1000''])
     (final (buildCodeqlDb 2 (demo_host (Some Java) None) (Some ''/proj'') True demo_world)) =
     Some (Inl ENOENT) \<and>
   map_option launched
     (final (buildCodeqlDb_part000 2 (demo_host (Some Java) None) (Some ''/proj'') True demo_world)) =
     Some [SpawnShell ''codeql database create /proj/sample_1234 --language=java --source-root /proj --build-mode=none --overwrite''] \<and>
   buildCodeqlDb 2 (demo_host None None) (Some ''/proj'') True demo_world = Returns () demo_world \<and>
   buildCodeqlDb_part000 2 (demo_host None None) (Some ''/proj'') True demo_world =
     Returns () demo_world"
  by code_simp

text \<open>
  C9 fails where the two files fail. After an exit with code 1, \<^verbatim>\<open>updateDb\<close> of
  src/extension.js returns and has registered the database, and \<^verbatim>\<open>updateDb\<close> of
  src/unnamed/part_000 never returns and has registered nothing. When the process cannot
  be started, the first registers nothing and the second registers the database. With
  the build command \<^verbatim>\<open>make all\<close> the tool receives different arguments from the two.
\<close>

theorem the_two_variants_differ_after_a_failed_command:
  "map_option registered
     (final (updateDb 2 1234 (demo_child 1) ''java'' ''/proj'' None demo_world)) =
     Some [''/proj/sample_1234''] \<and>
   map_option registered
     (final (updateDb_part000 2 1234 (demo_child 1) ''java'' ''/proj'' None demo_world)) =
     Some [] \<and>
   (case updateDb 2 1234 (demo_child 1) ''java'' ''/proj'' None demo_world of
      Returns u w' \<Rightarrow> True | Throws e w' \<Rightarrow> False | Pending w' \<Rightarrow> False | OutOfFuel \<Rightarrow> False) \<and>
   (case updateDb_part000 2 1234 (demo_child 1) ''java'' ''/proj'' None demo_world of
      Returns u w' \<Rightarrow> False | Throws e w' \<Rightarrow> False | Pending w' \<Rightarrow> True | OutOfFuel \<Rightarrow> False) \<and>
   map_option registered
     (final (updateDb 2 1234 \<lparr>chunks = [], ending = SpawnFailed\<rparr> ''java'' ''/proj'' None demo_world)) =
     Some [] \<and>
   map_option registered
     (final (updateDb_part000 2 1234 \<lparr>chunks = [], ending = SpawnFailed\<rparr> ''java'' ''/proj'' None demo_world)) =
     Some [''/proj/sample_1234''] \<and>
   map_option (map delivered \<circ> launched)
     (final (updateDb 2 1234 (demo_child 0) ''java'' ''/proj'' (Some ''make all'') demo_world)) \<noteq>
   map_option (map delivered \<circ> launched)
     (final (updateDb_part000 2 1234 (demo_child 0) ''java'' ''/proj'' (Some ''make all'') demo_world))"
  by code_simp

text \<open>
  C10. In the mode with a build command, when the user submits the empty string, the
  workflow does not stop and \<^verbatim>\<open>--command\<close> is not passed: the empty string is falsy, so
  \<^verbatim>\<open>updateDb\<close> builds the command with \<^verbatim>\<open>--build-mode=none\<close>, in src/extension.js as the
  list of arguments and in src/unnamed/part_000 as the command line, and does the same
  as without a build command; in both files \<^verbatim>\<open>updateDb\<close> and \<^verbatim>\<open>buildCodeqlDb\<close> go on and
  launch the external tool with this command, as the entry point without the prompt does.
\<close>

theorem an_empty_build_command_selects_the_no_build_mode:
  assumes "isAbsolute sourceRoot" "wf_node (disk w)" "depth (disk w) \<le> fuel"
    "showQuickPick h = Some lang" "showInputBox h = Some []"
  shows
    "updateDb_cmd database language sourceRoot (Some []) =
       [''codeql'', ''database'', ''create'', database, ''--language='' @ language,
        ''--source-root'', sourceRoot, ''--build-mode=none'', ''--overwrite''] \<and>
     updateDb_cmd_part000 database language sourceRoot (Some []) =
       updateDb_cmd_part000 database language sourceRoot None \<and>
     updateDb fuel now ch language sourceRoot (Some []) w =
       updateDb fuel now ch language sourceRoot None w \<and>
     updateDb_part000 fuel now ch language sourceRoot (Some []) w =
       updateDb_part000 fuel now ch language sourceRoot None w \<and>
     buildCodeqlDb fuel h (Some sourceRoot) True w = buildCodeqlDb fuel h (Some sourceRoot) False w \<and>
     buildCodeqlDb_part000 fuel h (Some sourceRoot) True w =
       buildCodeqlDb_part000 fuel h (Some sourceRoot) False w \<and>
     (\<exists>w'. buildCodeqlDb fuel h (Some sourceRoot) True w = Returns () w' \<and>
        launched w' = launched w @
          [ExecFile ''codeql''
            [''database'', ''create'', join [sourceRoot, ''sample_'' @ toString (dateNow h)],
             ''--language='' @ language_value lang, ''--source-root'', sourceRoot,
             ''--build-mode=none'', ''--overwrite'']]) \<and>
     updateDb_cmd_part000 database language sourceRoot (Some []) =
       ''codeql database create '' @ database @ '' --language='' @ language @
       '' --source-root '' @ sourceRoot @ '' --build-mode=none --overwrite'' \<and>
     updateDb_cmd_part000 database language sourceRoot (Some []) =
       joinWith (CHR '' '')
         [''codeql'', ''database'', ''create'', database, ''--language='' @ language,
          ''--source-root'', sourceRoot, ''--build-mode=none'', ''--overwrite''] \<and>
     ''--build-mode=none'' \<in> set (updateDb_cmd (join [sourceRoot, ''sample_'' @ toString now])
                                     language sourceRoot (Some [])) \<and>
     ''--command'' \<notin> set (updateDb_cmd (join [sourceRoot, ''sample_'' @ toString now])
                               language sourceRoot (Some [])) \<and>
     (\<exists>w'. updateDb fuel now ch language sourceRoot (Some []) w = Returns () w' \<and>
        launched w' = launched w @
          [ExecFile ''codeql''
            [''database'', ''create'', join [sourceRoot, ''sample_'' @ toString now],
             ''--language='' @ language, ''--source-root'', sourceRoot,
             ''--build-mode=none'', ''--overwrite'']]) \<and>
     (\<exists>w'. final (updateDb_part000 fuel now ch language sourceRoot (Some []) w) = Some w' \<and>
        launched w' = launched w @
          [SpawnShell
            (''codeql database create '' @ join [sourceRoot, ''sample_'' @ toString now] @
             '' --language='' @ language @ '' --source-root '' @ sourceRoot @
             '' --build-mode=none --overwrite'')] \<and>
        registered w' = registered w @
          (if ending ch = Exited 0 \<or> ending ch = SpawnFailed
           then [join [sourceRoot, ''sample_'' @ toString now]] else []) \<and>
        (updateDb_part000 fuel now ch language sourceRoot (Some []) w = Pending w'
           \<longleftrightarrow> ending ch \<noteq> Exited 0 \<and> ending ch \<noteq> SpawnFailed)) \<and>
     (\<exists>w'. final (buildCodeqlDb_part000 fuel h (Some sourceRoot) True w) = Some w' \<and>
        launched w' = launched w @
          [SpawnShell
            (''codeql database create '' @ join [sourceRoot, ''sample_'' @ toString (dateNow h)] @
             '' --language='' @ language_value lang @ '' --source-root '' @ sourceRoot @
             '' --build-mode=none --overwrite'')] \<and>
        registered w' = registered w @
          (if ending (childProcess h) = Exited 0 \<or> ending (childProcess h) = SpawnFailed
           then [join [sourceRoot, ''sample_'' @ toString (dateNow h)]] else []) \<and>
        (buildCodeqlDb_part000 fuel h (Some sourceRoot) True w = Pending w'
           \<longleftrightarrow> ending (childProcess h) \<noteq> Exited 0 \<and> ending (childProcess h) \<noteq> SpawnFailed))"
proof -
  obtain w1 where cl: "cleanupOldDb fuel sourceRoot w = Returns () w1"
    using cleanupOldDb_returns[OF assms(2,3)] by blast
  have ne: "sourceRoot \<noteq> []" using assms(1) by (auto simp: isAbsolute_def)
  have c: "updateDb_cmd db l r (Some []) = updateDb_cmd db l r None" for db l r
    by (simp add: updateDb_cmd_def)
  have c': "updateDb_cmd_part000 db l r (Some []) = updateDb_cmd_part000 db l r None" for db l r
    by (simp add: updateDb_cmd_part000_def)
  have u: "updateDb fuel n k l r (Some []) v = updateDb fuel n k l r None v" for n k l r v
    by (simp add: updateDb_def c)
  have u': "updateDb_part000 fuel n k l r (Some []) v = updateDb_part000 fuel n k l r None v"
    for n k l r v
    by (simp add: updateDb_part000_def c')
  have b: "buildCodeqlDb fuel h (Some sourceRoot) True w = buildCodeqlDb fuel h (Some sourceRoot) False w"
    using assms(4,5) ne by (simp add: buildCodeqlDb_def buildCodeqlDb_with_def u)
  have b': "buildCodeqlDb_part000 fuel h (Some sourceRoot) True w =
            buildCodeqlDb_part000 fuel h (Some sourceRoot) False w"
    using assms(4,5) ne by (simp add: buildCodeqlDb_part000_def buildCodeqlDb_with_def u')
  have run: "buildCodeqlDb fuel h (Some sourceRoot) True w =
             updateDb fuel (dateNow h) (childProcess h) (language_value lang) sourceRoot (Some []) w"
    using assms(4,5) ne by (simp add: buildCodeqlDb_def buildCodeqlDb_with_def)
  have run': "buildCodeqlDb_part000 fuel h (Some sourceRoot) True w =
             updateDb_part000 fuel (dateNow h) (childProcess h) (language_value lang) sourceRoot (Some []) w"
    using assms(4,5) ne by (simp add: buildCodeqlDb_part000_def buildCodeqlDb_with_def)
  have args: "updateDb_cmd db l r (Some []) =
       [''codeql'', ''database'', ''create'', db, ''--language='' @ l, ''--source-root'', r,
        ''--build-mode=none'', ''--overwrite'']" for db l r
    by (simp add: updateDb_cmd_def)
  have t: "tl (updateDb_cmd db l r (Some [])) =
       [''database'', ''create'', db, ''--language='' @ l, ''--source-root'', r,
        ''--build-mode=none'', ''--overwrite'']" for db l r
    by (simp add: updateDb_cmd_def)
  have line: "updateDb_cmd_part000 db l r (Some []) =
       ''codeql database create '' @ db @ '' --language='' @ l @
       '' --source-root '' @ r @ '' --build-mode=none --overwrite''" for db l r
    by (simp add: updateDb_cmd_part000_def)
  have fields: "updateDb_cmd_part000 db l r (Some []) =
       joinWith (CHR '' '')
         [''codeql'', ''database'', ''create'', db, ''--language='' @ l,
          ''--source-root'', r, ''--build-mode=none'', ''--overwrite'']" for db l r
    by (simp add: updateDb_cmd_part000_def)
  have e: "\<exists>w'. updateDb fuel n k l sourceRoot (Some []) w = Returns () w' \<and>
        launched w' = launched w @
          [ExecFile ''codeql''
            [''database'', ''create'', join [sourceRoot, ''sample_'' @ toString n],
             ''--language='' @ l, ''--source-root'', sourceRoot,
             ''--build-mode=none'', ''--overwrite'']]" for n k l
    using updateDb_effect[OF assms(1) cl, of n k l "Some []"] unfolding t by blast
  have e': "\<exists>w'. final (updateDb_part000 fuel n k l sourceRoot (Some []) w) = Some w' \<and>
        launched w' = launched w @
          [SpawnShell
            (''codeql database create '' @ join [sourceRoot, ''sample_'' @ toString n] @
             '' --language='' @ l @ '' --source-root '' @ sourceRoot @
             '' --build-mode=none --overwrite'')] \<and>
        registered w' = registered w @
          (if ending k = Exited 0 \<or> ending k = SpawnFailed
           then [join [sourceRoot, ''sample_'' @ toString n]] else []) \<and>
        (updateDb_part000 fuel n k l sourceRoot (Some []) w = Pending w'
           \<longleftrightarrow> ending k \<noteq> Exited 0 \<and> ending k \<noteq> SpawnFailed)" for n k l
    using updateDb_part000_effect[OF assms(1) cl, of n k l "Some []"] unfolding line by blast
  have adb: "isAbsolute (join [sourceRoot, ''sample_'' @ toString now])"
    by (rule isAbsolute_database[OF assms(1)])
  have m1: "''--build-mode=none'' \<in> set (updateDb_cmd (join [sourceRoot, ''sample_'' @ toString now])
                                     language sourceRoot (Some []))"
    unfolding args by simp
  have m2: "''--command'' \<notin> set (updateDb_cmd (join [sourceRoot, ''sample_'' @ toString now])
                               language sourceRoot (Some []))"
    unfolding args using absolute_not_option[OF adb] absolute_not_option[OF assms(1)] by auto
  have g1: "\<exists>w'. buildCodeqlDb fuel h (Some sourceRoot) True w = Returns () w' \<and>
        launched w' = launched w @
          [ExecFile ''codeql''
            [''database'', ''create'', join [sourceRoot, ''sample_'' @ toString (dateNow h)],
             ''--language='' @ language_value lang, ''--source-root'', sourceRoot,
             ''--build-mode=none'', ''--overwrite'']]"
    unfolding run by (rule e)
  have g2: "\<exists>w'. final (buildCodeqlDb_part000 fuel h (Some sourceRoot) True w) = Some w' \<and>
        launched w' = launched w @
          [SpawnShell
            (''codeql database create '' @ join [sourceRoot, ''sample_'' @ toString (dateNow h)] @
             '' --language='' @ language_value lang @ '' --source-root '' @ sourceRoot @
             '' --build-mode=none --overwrite'')] \<and>
        registered w' = registered w @
          (if ending (childProcess h) = Exited 0 \<or> ending (childProcess h) = SpawnFailed
           then [join [sourceRoot, ''sample_'' @ toString (dateNow h)]] else []) \<and>
        (buildCodeqlDb_part000 fuel h (Some sourceRoot) True w = Pending w'
           \<longleftrightarrow> ending (childProcess h) \<noteq> Exited 0 \<and> ending (childProcess h) \<noteq> SpawnFailed)"
    unfolding run' by (rule e')
  show ?thesis
    by (intro conjI)
       (rule args c' u u' b b' g1 line fields m1 m2 e e' g2)+
qed

theorem an_empty_build_command_selects_the_no_build_mode_witness:
  "(\<exists>w'. buildCodeqlDb 4 (demo_host (Some Java) (Some [])) (Some ''/proj'') True demo_world = Returns () w' \<and>
        launched w' =
          [ExecFile ''codeql''
            [''database'', ''create'', ''/proj/sample_1234'', ''--language=java'',
             ''--source-root'', ''/proj'', ''--build-mode=none'', ''--overwrite'']]) \<and>
   (\<exists>w'. final (buildCodeqlDb_part000 4 (demo_host (Some Java) (Some [])) (Some ''/proj'') True
                   demo_world) = Some w' \<and>
        launched w' =
          [SpawnShell ''codeql database create /proj/sample_1234 --language=java --source-root /proj --build-mode=none --overwrite''] \<and>
        registered w' = [''/proj/sample_1234''] \<and>
        buildCodeqlDb_part000 4 (demo_host (Some Java) (Some [])) (Some ''/proj'') True demo_world
          \<noteq> Pending w')"
proof -
  have a: "isAbsolute ''/proj''" by (simp add: isAbsolute_def)
  have p: "showQuickPick (demo_host (Some Java) (Some [])) = Some Java"
    "showInputBox (demo_host (Some Java) (Some [])) = Some []"
    "dateNow (demo_host (Some Java) (Some [])) = 1234"
    "ending (childProcess (demo_host (Some Java) (Some []))) = Exited 0"
    by (simp_all add: demo_host_def demo_child_def)
  note T = an_empty_build_command_selects_the_no_build_mode
            [where database = "''/x''" and language = "''java''" and now = 1234
               and ch = "demo_child 0", OF a demo_wf p(1,2)]
  from T have x: "\<exists>w'. buildCodeqlDb 4 (demo_host (Some Java) (Some [])) (Some ''/proj'') True demo_world
              = Returns () w' \<and>
        launched w' = launched demo_world @
          [ExecFile ''codeql''
            [''database'', ''create'',
             join [''/proj'', ''sample_'' @ toString (dateNow (demo_host (Some Java) (Some [])))],
             ''--language='' @ language_value Java, ''--source-root'', ''/proj'',
             ''--build-mode=none'', ''--overwrite'']]"
    by blast
  from T have y: "\<exists>w'.
    final (buildCodeqlDb_part000 4 (demo_host (Some Java) (Some [])) (Some ''/proj'') True demo_world) = Some w' \<and>
    launched w' = launched demo_world @
          [SpawnShell
            (''codeql database create '' @
             join [''/proj'', ''sample_'' @ toString (dateNow (demo_host (Some Java) (Some [])))] @
             '' --language='' @ language_value Java @ '' --source-root '' @ ''/proj'' @
             '' --build-mode=none --overwrite'')] \<and>
    registered w' = registered demo_world @
          (if ending (childProcess (demo_host (Some Java) (Some []))) = Exited 0 \<or>
              ending (childProcess (demo_host (Some Java) (Some []))) = SpawnFailed
           then [join [''/proj'', ''sample_'' @ toString (dateNow (demo_host (Some Java) (Some [])))]]
           else []) \<and>
    (buildCodeqlDb_part000 4 (demo_host (Some Java) (Some [])) (Some ''/proj'') True demo_world = Pending w'
       \<longleftrightarrow> ending (childProcess (demo_host (Some Java) (Some []))) \<noteq> Exited 0 \<and>
           ending (childProcess (demo_host (Some Java) (Some []))) \<noteq> SpawnFailed)"
    by blast
  have x': "\<exists>w'. buildCodeqlDb 4 (demo_host (Some Java) (Some [])) (Some ''/proj'') True demo_world = Returns () w' \<and>
        launched w' =
          [ExecFile ''codeql''
            [''database'', ''create'', ''/proj/sample_1234'', ''--language=java'',
             ''--source-root'', ''/proj'', ''--build-mode=none'', ''--overwrite'']]"
    using x unfolding p(3) demo_database by (simp add: demo_world_def)
  have y': "\<exists>w'. final (buildCodeqlDb_part000 4 (demo_host (Some Java) (Some [])) (Some ''/proj'') True
                   demo_world) = Some w' \<and>
        launched w' =
          [SpawnShell ''codeql database create /proj/sample_1234 --language=java --source-root /proj --build-mode=none --overwrite''] \<and>
        registered w' = [''/proj/sample_1234''] \<and>
        buildCodeqlDb_part000 4 (demo_host (Some Java) (Some [])) (Some ''/proj'') True demo_world
          \<noteq> Pending w'"
    using y unfolding p(3) p(4) demo_database by (simp add: demo_world_def)
  show ?thesis using x' y' by (rule conjI)
qed

end
